theory Spec2Isabelle
  imports Main "HOL-Library.Product_Lexorder" "HOL-Library.List_Lexorder" "HOL-Library.Char_ord"
begin

section \<open>Python values and exceptions\<close>

text \<open>
  The records handled by \<^verbatim>\<open>app.py\<close> and \<^verbatim>\<open>gerar_ranking.py\<close> are whatever
  \<^verbatim>\<open>json.loads\<close> returns: dictionaries, lists, strings, integers, floats, booleans and
  \<^verbatim>\<open>None\<close>. A dictionary is an association list in insertion order with distinct keys.
  A float is kept as the text of its literal: no claim computes with floats.
  Strings are lists of 8-bit characters; the case and whitespace functions below are the
  ASCII part of Python's.
\<close>

datatype json =
    JNull
  | JBool bool
  | JInt int
  | JFloat string
  | JString string
  | JArray "json list"
  | JObject "(string \<times> json) list"

datatype py_error = AttributeError | JSONDecodeError | TypeError | ValueError

definition bindE :: "'e + 'a \<Rightarrow> ('a \<Rightarrow> 'e + 'b) \<Rightarrow> 'e + 'b" where
  "bindE m f = (case m of Inl e \<Rightarrow> Inl e | Inr x \<Rightarrow> f x)"

subsection \<open>String methods\<close>

definition py_isspace :: "char \<Rightarrow> bool" where
  "py_isspace c = (of_char c \<in> {9::nat, 10, 11, 12, 13, 28, 29, 30, 31, 32})"

definition py_strip :: "string \<Rightarrow> string" where
  "py_strip s = rev (dropWhile py_isspace (rev (dropWhile py_isspace s)))"

definition lower_char :: "char \<Rightarrow> char" where
  "lower_char c = (let n = (of_char c :: nat) in if 65 \<le> n \<and> n \<le> 90 then char_of (n + 32) else c)"

definition py_lower :: "string \<Rightarrow> string" where
  "py_lower s = map lower_char s"

fun startswith :: "string \<Rightarrow> string \<Rightarrow> bool" where
  "startswith s [] = True"
| "startswith [] (p # ps) = False"
| "startswith (c # cs) (p # ps) = (c = p \<and> startswith cs ps)"

text \<open>\<^verbatim>\<open>sub in s\<close> on strings: \<open>sub\<close> occurs in \<open>s\<close> as a contiguous block.\<close>

fun py_in :: "string \<Rightarrow> string \<Rightarrow> bool" where
  "py_in sub [] = (sub = [])"
| "py_in sub (c # cs) = (startswith (c # cs) sub \<or> py_in sub cs)"

text \<open>\<^verbatim>\<open>s.split()\<close>: the maximal runs of non-whitespace characters.\<close>

fun split_ws :: "string \<Rightarrow> string \<Rightarrow> string list" where
  "split_ws cur [] = (if cur = [] then [] else [cur])"
| "split_ws cur (c # cs) =
     (if py_isspace c then (if cur = [] then split_ws [] cs else cur # split_ws [] cs)
      else split_ws (cur @ [c]) cs)"

definition py_split :: "string \<Rightarrow> string list" where
  "py_split s = split_ws [] s"

text \<open>\<^verbatim>\<open>s.split(sep)\<close> for a one-character separator, and \<^verbatim>\<open>sep.join(xs)\<close>.\<close>

fun split_on :: "char \<Rightarrow> string \<Rightarrow> string \<Rightarrow> string list" where
  "split_on sep cur [] = [cur]"
| "split_on sep cur (c # cs) =
     (if c = sep then cur # split_on sep [] cs else split_on sep (cur @ [c]) cs)"

fun join_with :: "string \<Rightarrow> string list \<Rightarrow> string" where
  "join_with sep [] = []"
| "join_with sep [x] = x"
| "join_with sep (x # y # ys) = x @ sep @ join_with sep (y # ys)"

subsection \<open>Dictionaries\<close>

text \<open>\<^verbatim>\<open>d[k] = v\<close>: an existing key keeps its place, a new key goes to the end.\<close>

fun dict_set :: "'k \<Rightarrow> 'v \<Rightarrow> ('k \<times> 'v) list \<Rightarrow> ('k \<times> 'v) list" where
  "dict_set k v [] = [(k, v)]"
| "dict_set k v ((k', v') # d) = (if k' = k then (k, v) # d else (k', v') # dict_set k v d)"

definition dict_get :: "('k \<times> 'v) list \<Rightarrow> 'k \<Rightarrow> 'v \<Rightarrow> 'v" where
  "dict_get d k dflt = (case map_of d k of None \<Rightarrow> dflt | Some v \<Rightarrow> v)"

text \<open>
  \<^verbatim>\<open>x.get(k, default)\<close> on a parsed value: only a dictionary has the method, every other
  value raises \<^verbatim>\<open>AttributeError\<close>. Likewise \<^verbatim>\<open>.strip()\<close> and \<^verbatim>\<open>.lower()\<close> exist on strings
  only.
\<close>

fun py_get :: "json \<Rightarrow> string \<Rightarrow> json \<Rightarrow> py_error + json" where
  "py_get (JObject d) k dflt = Inr (dict_get d k dflt)"
| "py_get _ k dflt = Inl AttributeError"

fun str_strip :: "json \<Rightarrow> py_error + string" where
  "str_strip (JString s) = Inr (py_strip s)"
| "str_strip _ = Inl AttributeError"

fun str_lower :: "json \<Rightarrow> py_error + string" where
  "str_lower (JString s) = Inr (py_lower s)"
| "str_lower _ = Inl AttributeError"

section \<open>Library functions used by the parser\<close>

abbreviation aspas :: char where "aspas \<equiv> CHR 0x22"
abbreviation barra :: char where "barra \<equiv> CHR 0x5C"
abbreviation nova_linha :: char where "nova_linha \<equiv> CHR 0x0A"

definition is_digit :: "char \<Rightarrow> bool" where
  "is_digit c = (48 \<le> (of_char c :: nat) \<and> (of_char c :: nat) \<le> 57)"

definition digit_val :: "char \<Rightarrow> nat" where
  "digit_val c = of_char c - 48"

definition nat_of_digits :: "string \<Rightarrow> nat" where
  "nat_of_digits ds = foldl (\<lambda>a d. 10 * a + digit_val d) 0 ds"

subsection \<open>re.sub for the three wrapper patterns\<close>

text \<open>
  The three patterns of \<^verbatim>\<open>parse_mongodb_json\<close> have the shape: a literal opening, one or
  more characters of a class, a literal closing. The class excludes the first character of
  the closing, so a match at a position is the opening, the longest run of the class, and
  the closing. \<open>casa\<close> returns the group and the text after the match. \<open>re_sub\<close>
  replaces the non-overlapping matches from left to right, as \<^verbatim>\<open>re.sub\<close> does.
\<close>

definition casa :: "string \<Rightarrow> (char \<Rightarrow> bool) \<Rightarrow> string \<Rightarrow> string \<Rightarrow> (string \<times> string) option" where
  "casa abre classe fecha s =
     (if startswith s abre then
        (let corpo = drop (length abre) s;
             grupo = takeWhile classe corpo;
             resto = dropWhile classe corpo
         in if grupo \<noteq> [] \<and> startswith resto fecha
            then Some (grupo, drop (length fecha) resto) else None)
      else None)"

function re_sub ::
  "string \<Rightarrow> (char \<Rightarrow> bool) \<Rightarrow> string \<Rightarrow> (string \<Rightarrow> string) \<Rightarrow> string \<Rightarrow> string" where
  "re_sub abre classe fecha repl [] = []"
| "re_sub abre classe fecha repl (c # cs) =
     (case casa abre classe fecha (c # cs) of
        Some (grupo, resto) \<Rightarrow> repl grupo @ re_sub abre classe fecha repl resto
      | None \<Rightarrow> c # re_sub abre classe fecha repl cs)"
  by pat_completeness auto
termination
proof (relation "measure (\<lambda>(abre, classe, fecha, repl, s). length s)")
  show "wf (measure (\<lambda>(abre, classe, fecha, repl, s). length s))" by simp
next
  fix abre :: string and classe :: "char \<Rightarrow> bool" and fecha :: string
    and repl :: "string \<Rightarrow> string" and c :: char and cs :: string
    and x2 :: "string \<times> string" and grupo resto :: string
  assume m: "casa abre classe fecha (c # cs) = Some x2" and x2: "(grupo, resto) = x2"
  let ?corpo = "drop (length abre) (c # cs)"
  from m x2 have g: "takeWhile classe ?corpo \<noteq> []"
    and r: "resto = drop (length fecha) (dropWhile classe ?corpo)"
    by (auto simp: casa_def Let_def split: if_splits)
  have "length (takeWhile classe ?corpo) + length (dropWhile classe ?corpo) = length ?corpo"
    by (metis length_append takeWhile_dropWhile_id)
  with g have "length (dropWhile classe ?corpo) < length (c # cs)"
    by (cases "takeWhile classe ?corpo") auto
  with r have "length resto < length (c # cs)" by simp
  then show "((abre, classe, fecha, repl, resto), (abre, classe, fecha, repl, c # cs))
               \<in> measure (\<lambda>(abre, classe, fecha, repl, s). length s)"
    by simp
next
  fix abre :: string and classe :: "char \<Rightarrow> bool" and fecha :: string
    and repl :: "string \<Rightarrow> string" and c :: char and cs :: string
  show "((abre, classe, fecha, repl, cs), (abre, classe, fecha, repl, c # cs))
          \<in> measure (\<lambda>(abre, classe, fecha, repl, s). length s)"
    by simp
qed

text \<open>\<^verbatim>\<open>re.sub(r'ObjectId\("([^"]+)"\)', r'"\1"', content)\<close> and the two others.\<close>

definition remove_ObjectId :: "string \<Rightarrow> string" where
  "remove_ObjectId content =
     re_sub (''ObjectId('' @ [aspas]) (\<lambda>c. c \<noteq> aspas) (aspas # '')'')
       (\<lambda>g. aspas # g @ [aspas]) content"

definition remove_NumberInt :: "string \<Rightarrow> string" where
  "remove_NumberInt content = re_sub ''NumberInt('' is_digit '')'' (\<lambda>g. g) content"

definition remove_ISODate :: "string \<Rightarrow> string" where
  "remove_ISODate content =
     re_sub (''ISODate('' @ [aspas]) (\<lambda>c. c \<noteq> aspas) (aspas # '')'')
       (\<lambda>g. aspas # g @ [aspas]) content"

subsection \<open>json.loads\<close>

text \<open>
  \<^verbatim>\<open>json.loads\<close> is library code; this is a model of the decoder of the standard library
  with its default settings: whitespace is space, tab, line feed and carriage return;
  a string may not contain a raw control character; the escapes are
  \<^verbatim>\<open>\" \\ \/ \b \f \n \r \t \uXXXX\<close>; a number without fraction and exponent is an integer;
  \<^verbatim>\<open>NaN\<close>, \<^verbatim>\<open>Infinity\<close> and \<^verbatim>\<open>-Infinity\<close> are accepted; a repeated key keeps its first
  place and its last value; text after the value is an error. Every failure is
  \<^verbatim>\<open>JSONDecodeError\<close>. A \<^verbatim>\<open>\uXXXX\<close> escape is decoded to the UTF-8 bytes of that code unit
  (a surrogate pair is not joined). The interpreter's limits (recursion depth, digits of an
  integer) are not modelled. The recursion is on a fuel argument; \<open>json_loads\<close> gives
  more fuel than any text can use, since every second call consumes a character.
\<close>

definition json_ws :: "char \<Rightarrow> bool" where
  "json_ws c = (c = CHR '' '' \<or> c = CHR 0x09 \<or> c = CHR 0x0A \<or> c = CHR 0x0D)"

definition skip_ws :: "string \<Rightarrow> string" where
  "skip_ws s = dropWhile json_ws s"

definition hex_val :: "char \<Rightarrow> nat option" where
  "hex_val c =
     (let n = (of_char c :: nat) in
      if 48 \<le> n \<and> n \<le> 57 then Some (n - 48)
      else if 65 \<le> n \<and> n \<le> 70 then Some (n - 55)
      else if 97 \<le> n \<and> n \<le> 102 then Some (n - 87)
      else None)"

definition hex4 :: "char \<Rightarrow> char \<Rightarrow> char \<Rightarrow> char \<Rightarrow> nat option" where
  "hex4 a b c d =
     (case (hex_val a, hex_val b, hex_val c, hex_val d) of
        (Some x, Some y, Some z, Some w) \<Rightarrow> Some (4096 * x + 256 * y + 16 * z + w)
      | _ \<Rightarrow> None)"

definition utf8 :: "nat \<Rightarrow> string" where
  "utf8 n =
     (if n < 128 then [char_of n]
      else if n < 2048 then [char_of (192 + n div 64), char_of (128 + n mod 64)]
      else [char_of (224 + n div 4096), char_of (128 + (n div 64) mod 64), char_of (128 + n mod 64)])"

definition escape_char :: "char \<Rightarrow> char option" where
  "escape_char e =
     (if e = aspas then Some aspas
      else if e = barra then Some barra
      else if e = CHR ''/'' then Some (CHR ''/'')
      else if e = CHR ''b'' then Some (CHR 0x08)
      else if e = CHR ''f'' then Some (CHR 0x0C)
      else if e = CHR ''n'' then Some (CHR 0x0A)
      else if e = CHR ''r'' then Some (CHR 0x0D)
      else if e = CHR ''t'' then Some (CHR 0x09)
      else None)"

text \<open>The text after an opening quote: the decoded string and what follows the closing
  quote.\<close>

fun scan_string :: "string \<Rightarrow> (string \<times> string) option" where
  "scan_string [] = None"
| "scan_string (c # cs) =
     (if c = aspas then Some ([], cs)
      else if c = barra then
        (case cs of
           [] \<Rightarrow> None
         | e # cs1 \<Rightarrow>
             if e = CHR ''u'' then
               (case cs1 of
                  h1 # h2 # h3 # h4 # cs2 \<Rightarrow>
                    (case hex4 h1 h2 h3 h4 of
                       None \<Rightarrow> None
                     | Some n \<Rightarrow> (case scan_string cs2 of
                                   None \<Rightarrow> None
                                 | Some (x, r) \<Rightarrow> Some (utf8 n @ x, r)))
                | _ \<Rightarrow> None)
             else
               (case escape_char e of
                  None \<Rightarrow> None
                | Some ch \<Rightarrow> (case scan_string cs1 of
                               None \<Rightarrow> None
                             | Some (x, r) \<Rightarrow> Some (ch # x, r))))
      else if (of_char c :: nat) < 32 then None
      else (case scan_string cs of
              None \<Rightarrow> None
            | Some (x, r) \<Rightarrow> Some (c # x, r)))"

text \<open>Numbers: \<^verbatim>\<open>(-?(?:0|[1-9]\d*))(\.\d+)?([eE][-+]?\d+)?\<close>.\<close>

definition scan_int_part :: "string \<Rightarrow> (string \<times> string) option" where
  "scan_int_part s =
     (case s of
        [] \<Rightarrow> None
      | d # r \<Rightarrow> if d = CHR ''0'' then Some ([d], r)
                 else if is_digit d then Some (d # takeWhile is_digit r, dropWhile is_digit r)
                 else None)"

definition scan_frac :: "string \<Rightarrow> string \<times> string" where
  "scan_frac s =
     (case s of
        p # d # r \<Rightarrow> if p = CHR ''.'' \<and> is_digit d
                     then (p # d # takeWhile is_digit r, dropWhile is_digit r) else ([], s)
      | _ \<Rightarrow> ([], s))"

definition scan_exp :: "string \<Rightarrow> string \<times> string" where
  "scan_exp s =
     (case s of
        e # r \<Rightarrow>
          if e = CHR ''e'' \<or> e = CHR ''E'' then
            (case r of
               g # d # r1 \<Rightarrow>
                 if (g = CHR ''+'' \<or> g = CHR ''-'') \<and> is_digit d
                   then (e # g # d # takeWhile is_digit r1, dropWhile is_digit r1)
                 else if is_digit g then (e # takeWhile is_digit r, dropWhile is_digit r)
                 else ([], s)
             | [g] \<Rightarrow> if is_digit g then ([e, g], []) else ([], s)
             | [] \<Rightarrow> ([], s))
          else ([], s)
      | [] \<Rightarrow> ([], s))"

definition scan_number :: "string \<Rightarrow> (json \<times> string) option" where
  "scan_number s =
     (let (neg, s1) = (case s of [] \<Rightarrow> (False, s)
                       | c # r \<Rightarrow> if c = CHR ''-'' then (True, r) else (False, s))
      in case scan_int_part s1 of
           None \<Rightarrow> None
         | Some (ds, r1) \<Rightarrow>
             let (frac, r2) = scan_frac r1;
                 (ex, r3) = scan_exp r2
             in if frac = [] \<and> ex = []
                then Some (JInt (if neg then - int (nat_of_digits ds) else int (nat_of_digits ds)), r1)
                else Some (JFloat ((if neg then ''-'' else []) @ ds @ frac @ ex), r3))"

definition scan_literal :: "string \<Rightarrow> (json \<times> string) option" where
  "scan_literal s =
     (if startswith s ''null'' then Some (JNull, drop 4 s)
      else if startswith s ''true'' then Some (JBool True, drop 4 s)
      else if startswith s ''false'' then Some (JBool False, drop 5 s)
      else if startswith s ''NaN'' then Some (JFloat ''NaN'', drop 3 s)
      else if startswith s ''Infinity'' then Some (JFloat ''Infinity'', drop 8 s)
      else if startswith s ''-Infinity'' then Some (JFloat ''-Infinity'', drop 9 s)
      else scan_number s)"

definition mk_dict :: "(string \<times> json) list \<Rightarrow> json" where
  "mk_dict pairs = JObject (foldl (\<lambda>d (k, v). dict_set k v d) [] pairs)"

fun parse_value :: "nat \<Rightarrow> string \<Rightarrow> (json \<times> string) option"
  and parse_array :: "nat \<Rightarrow> string \<Rightarrow> (json list \<times> string) option"
  and parse_object :: "nat \<Rightarrow> string \<Rightarrow> ((string \<times> json) list \<times> string) option" where
  "parse_value 0 s = None"
| "parse_value (Suc n) [] = None"
| "parse_value (Suc n) (c # cs) =
     (if c = aspas then
        (case scan_string cs of None \<Rightarrow> None | Some (x, r) \<Rightarrow> Some (JString x, r))
      else if c = CHR ''{'' then
        (case skip_ws cs of
           [] \<Rightarrow> None
         | d # r \<Rightarrow> if d = CHR ''}'' then Some (JObject [], r)
                    else (case parse_object n (d # r) of
                            None \<Rightarrow> None
                          | Some (pairs, r') \<Rightarrow> Some (mk_dict pairs, r')))
      else if c = CHR ''['' then
        (case skip_ws cs of
           [] \<Rightarrow> None
         | d # r \<Rightarrow> if d = CHR '']'' then Some (JArray [], r)
                    else (case parse_array n (d # r) of
                            None \<Rightarrow> None
                          | Some (vs, r') \<Rightarrow> Some (JArray vs, r')))
      else scan_literal (c # cs))"
| "parse_array 0 s = None"
| "parse_array (Suc n) s =
     (case parse_value n s of
        None \<Rightarrow> None
      | Some (v, r) \<Rightarrow>
          (case skip_ws r of
             [] \<Rightarrow> None
           | d # r1 \<Rightarrow>
               if d = CHR '']'' then Some ([v], r1)
               else if d = CHR '','' then
                 (case parse_array n (skip_ws r1) of
                    None \<Rightarrow> None
                  | Some (vs, r2) \<Rightarrow> Some (v # vs, r2))
               else None))"
| "parse_object 0 s = None"
| "parse_object (Suc n) [] = None"
| "parse_object (Suc n) (c # cs) =
     (if c = aspas then
        (case scan_string cs of
           None \<Rightarrow> None
         | Some (k, r) \<Rightarrow>
             (case skip_ws r of
                [] \<Rightarrow> None
              | p # r1 \<Rightarrow>
                  if p = CHR '':'' then
                    (case parse_value n (skip_ws r1) of
                       None \<Rightarrow> None
                     | Some (v, r2) \<Rightarrow>
                         (case skip_ws r2 of
                            [] \<Rightarrow> None
                          | d # r3 \<Rightarrow>
                              if d = CHR ''}'' then Some ([(k, v)], r3)
                              else if d = CHR '','' then
                                (case parse_object n (skip_ws r3) of
                                   None \<Rightarrow> None
                                 | Some (pairs, r4) \<Rightarrow> Some ((k, v) # pairs, r4))
                              else None))
                  else None))
      else None)"

definition json_loads :: "string \<Rightarrow> py_error + json" where
  "json_loads s =
     (case parse_value (2 * length s + 2) (skip_ws s) of
        None \<Rightarrow> Inl JSONDecodeError
      | Some (v, r) \<Rightarrow> if skip_ws r = [] then Inr v else Inl JSONDecodeError)"

section \<open>Extended-JSON repair parser (app.py and gerar_ranking.py, parse_mongodb_json)\<close>

text \<open>The inner loop \<^verbatim>\<open>for char in line\<close> on the state (depth, in_string, escape_next).\<close>

fun conta_char :: "int \<times> bool \<times> bool \<Rightarrow> char \<Rightarrow> int \<times> bool \<times> bool" where
  "conta_char (depth, in_string, escape_next) c =
     (if escape_next then (depth, in_string, False)
      else if c = barra then (depth, in_string, True)
      else if c = aspas \<and> \<not> escape_next then (depth, \<not> in_string, escape_next)
      else if \<not> in_string then
        (if c = CHR ''{'' \<or> c = CHR ''['' then (depth + 1, in_string, escape_next)
         else if c = CHR ''}'' \<or> c = CHR '']'' then (depth - 1, in_string, escape_next)
         else (depth, in_string, escape_next))
      else (depth, in_string, escape_next))"

definition conta_linha :: "int \<times> bool \<times> bool \<Rightarrow> string \<Rightarrow> int \<times> bool \<times> bool" where
  "conta_linha st line = foldl conta_char st line"

fun is_dict :: "json \<Rightarrow> bool" where
  "is_dict (JObject d) = True"
| "is_dict _ = False"

fun tem_chave :: "string \<Rightarrow> json \<Rightarrow> bool" where
  "tem_chave k (JObject d) = (k \<in> set (map fst d))"
| "tem_chave k _ = False"

text \<open>
  The loop \<^verbatim>\<open>for line in lines\<close> with its state: the buffer \<open>current_obj_lines\<close>, the
  scanner state and \<open>players\<close>. The \<^verbatim>\<open>except\<close> clause names \<^verbatim>\<open>json.JSONDecodeError\<close>; any
  other exception would leave the function.
\<close>

fun varre_linhas ::
  "string list \<Rightarrow> string list \<Rightarrow> int \<times> bool \<times> bool \<Rightarrow> json list \<Rightarrow> py_error + json list" where
  "varre_linhas [] current_obj_lines st players = Inr players"
| "varre_linhas (line # lines) current_obj_lines st players =
     (if current_obj_lines = [] \<and> CHR ''{'' \<notin> set line
      then varre_linhas lines current_obj_lines st players
      else
        let cur = current_obj_lines @ [line];
            st1 = conta_linha st line
        in if fst st1 = 0 \<and> cur \<noteq> [] then
             (case json_loads (join_with [nova_linha] cur) of
                Inr data \<Rightarrow>
                  if is_dict data \<and> tem_chave ''fullName'' data
                  then varre_linhas lines [] st1 (players @ [data])
                  else varre_linhas lines [] st1 players
              | Inl JSONDecodeError \<Rightarrow> varre_linhas lines [] st1 players
              | Inl e \<Rightarrow> Inl e)
           else varre_linhas lines cur st1 players)"

definition parse_mongodb_json :: "string \<Rightarrow> py_error + json list" where
  "parse_mongodb_json content0 =
     (let content = remove_ISODate (remove_NumberInt (remove_ObjectId content0));
          lines = split_on nova_linha [] content
      in bindE (varre_linhas lines [] (0, False, False) []) (\<lambda>players.
           if players = [] then
             (case json_loads content of
                Inr (JObject d) \<Rightarrow> Inr [JObject d]
              | Inr (JArray xs) \<Rightarrow> Inr xs
              | Inr _ \<Rightarrow> Inr players
              | Inl JSONDecodeError \<Rightarrow> Inr players
              | Inl e \<Rightarrow> Inl e)
           else Inr players))"

section \<open>Position resolver (app.py)\<close>

definition extrair_posicao_normalizada :: "json \<Rightarrow> py_error + string" where
  "extrair_posicao_normalizada player =
     bindE (py_get player ''position'' (JString [])) (\<lambda>pv.
     bindE (str_strip pv) (\<lambda>position.
     bindE (py_get player ''prizeDrawPosition'' (JString [])) (\<lambda>dv.
     bindE (str_strip dv) (\<lambda>prize_draw_position.
       let posicao_final = (if prize_draw_position \<noteq> [] then prize_draw_position else position);
           posicao_lower = py_lower posicao_final
       in Inr (if py_in ''zagueiro'' posicao_lower \<or> py_in ''lateral'' posicao_lower then ''ZAG''
               else if py_in ''meia'' posicao_lower \<or> py_in ''volante'' posicao_lower then ''MEI''
               else if py_in ''atacante'' posicao_lower \<or> py_in ''ponta'' posicao_lower then ''ATA''
               else if py_in ''ponta esquerda'' posicao_lower \<or> py_in ''ponta direita'' posicao_lower
                 then ''ATA''
               else if py_in ''lateral direito'' posicao_lower \<or> py_in ''lateral esquerdo'' posicao_lower
                 then ''ZAG''
               else posicao_final)))))"

text \<open>
  The first loop of \<^verbatim>\<open>buscar_posicao_jogador\<close>: each record is tested for the exact match
  and then for the word match before the next record is looked at.
\<close>

fun busca_laco1 :: "string \<Rightarrow> string list \<Rightarrow> json list \<Rightarrow> py_error + string option" where
  "busca_laco1 nome_normalizado palavras_nome [] = Inr None"
| "busca_laco1 nome_normalizado palavras_nome (player # players) =
     bindE (py_get player ''fullName'' (JString [])) (\<lambda>fv.
     bindE (str_strip fv) (\<lambda>full_name.
       let full_name_lower = py_lower full_name in
       if full_name_lower = nome_normalizado
         then bindE (extrair_posicao_normalizada player) (\<lambda>p. Inr (Some p))
       else if palavras_nome \<noteq> [] \<and> list_all (\<lambda>palavra. py_in palavra full_name_lower) palavras_nome
         then bindE (extrair_posicao_normalizada player) (\<lambda>p. Inr (Some p))
       else busca_laco1 nome_normalizado palavras_nome players))"

fun busca_laco2 :: "string \<Rightarrow> json list \<Rightarrow> py_error + string option" where
  "busca_laco2 primeira_palavra [] = Inr None"
| "busca_laco2 primeira_palavra (player # players) =
     bindE (py_get player ''fullName'' (JString [])) (\<lambda>fv.
     bindE (str_strip fv) (\<lambda>stripped.
       let full_name = py_lower stripped in
       if startswith full_name primeira_palavra \<or> py_in primeira_palavra full_name
         then bindE (extrair_posicao_normalizada player) (\<lambda>p. Inr (Some p))
       else busca_laco2 primeira_palavra players))"

definition buscar_posicao_jogador :: "string \<Rightarrow> json list \<Rightarrow> py_error + string option" where
  "buscar_posicao_jogador nome players =
     (let nome_normalizado = py_lower (py_strip nome);
          palavras_nome = py_split nome_normalizado
      in bindE (busca_laco1 nome_normalizado palavras_nome players) (\<lambda>r.
           case r of
             Some p \<Rightarrow> Inr (Some p)
           | None \<Rightarrow> (case palavras_nome of
                         [] \<Rightarrow> Inr None
                       | primeira_palavra # _ \<Rightarrow> busca_laco2 primeira_palavra players)))"

definition normalizar_posicao :: "string \<Rightarrow> string" where
  "normalizar_posicao posicao =
     (if posicao = [] then ''ATA''
      else let posicao_lower = py_lower posicao in
        if py_in ''zag'' posicao_lower \<or> py_in ''lateral'' posicao_lower then ''ZAG''
        else if py_in ''mei'' posicao_lower \<or> py_in ''volante'' posicao_lower then ''MEI''
        else if py_in ''ata'' posicao_lower \<or> py_in ''ponta'' posicao_lower then ''ATA''
        else ''ATA'')"

section \<open>Team draw (app.py, sortear_times)\<close>

subsection \<open>Tables\<close>

definition jogadores_com_posicao_inicial :: "(string \<times> string) list" where
  "jogadores_com_posicao_inicial =
     [(''Arnaldo'', ''ATA''), (''Ronald'', ''ZAG''), (''Luiz Kelvin'', ''ZAG''),
      (''Kawa Messi'', ''ZAG''), (''Henrique'', ''ZAG''), (''Vertinho'', ''ATA''),
      (''Cabinha'', ''ZAG''), (''Weslly'', ''ZAG''), (''Guilherme'', ''ZAG''),
      (''Nilson'', ''ATA''), (''Tavares'', ''MEI''), (''Samuel'', ''ZAG''),
      (''Jonis'', ''ATA''), (''Adelson'', ''MEI''), (''Deyvde'', ''ATA''),
      (''Kelvin'', ''ATA''), (''Andrew'', ''ATA''), (''Lito'', ''ZAG''),
      (''Caio'', ''ZAG''), (''Luan'', ''ZAG''), (''Matador'', ''ATA''),
      (''Israel'', ''ATA''), (''Luiz'', ''ZAG''), (''Vini'', ''MEI''),
      (''Arthur'', ''ATA'')]"

definition jogadores_sem_posicao :: "string list" where
  "jogadores_sem_posicao = [''Luiz Kelvin'', ''Nilson'', ''Adelson'', ''Luan'']"

definition todos_jogadores_inicial :: "string list" where
  "todos_jogadores_inicial =
     [''Arnaldo'', ''Ronald'', ''Luiz Kelvin'', ''Kawa Messi'', ''Henrique'',
      ''Vertinho'', ''Cabinha'', ''Weslly'', ''Guilherme'', ''Nilson'',
      ''Tavares'', ''Samuel'', ''Jonis'', ''Adelson'', ''Deyvde'',
      ''Kelvin'', ''Andrew'', ''Lito'', ''Caio'', ''Luan'',
      ''Matador'', ''Israel'', ''Luiz'', ''Vini'', ''Arthur'']"

definition grupo_restrito :: "string list" where
  "grupo_restrito = [''Arnaldo'', ''Kelvin'', ''Tavares'', ''Vertinho'']"

definition nome_alternativo :: "(string \<times> string) list" where
  "nome_alternativo = [(''Matheus Tavares'', ''Tavares'')]"

definition max_tentativas :: nat where
  "max_tentativas = 50"

subsection \<open>Randomness\<close>

text \<open>
  \<^verbatim>\<open>random.shuffle\<close> is library code. It is modelled by drawing without replacement:
  each number of the seed picks (modulo the number of elements left) the next element of
  the result; when the seed runs out the remaining elements keep their order. Every result
  is a permutation of the argument and every permutation is the result of some seed
  (lemmas \<open>mset_shuffle\<close> and \<open>shuffle_any_permutation\<close>). One call of \<^verbatim>\<open>sortear_times\<close>
  shuffles up to seven lists, so it takes seven seeds.
\<close>

fun shuffle :: "nat list \<Rightarrow> 'a list \<Rightarrow> 'a list" where
  "shuffle rs [] = []"
| "shuffle [] (x # xs) = x # xs"
| "shuffle (r # rs) (x # xs) =
     (let i = r mod length (x # xs)
      in (x # xs) ! i # shuffle rs (take i (x # xs) @ drop (Suc i) (x # xs)))"

record sementes =
  s_zagueiros :: "nat list"
  s_meias :: "nat list"
  s_atacantes :: "nat list"
  s_restritos :: "nat list"
  s_zagueiros_rest :: "nat list"
  s_meias_rest :: "nat list"
  s_atacantes_rest :: "nat list"

subsection \<open>Positions of the four names looked up in players.json\<close>

fun busca_posicoes ::
  "json list \<Rightarrow> string list \<Rightarrow> (string \<times> string) list \<Rightarrow> py_error + (string \<times> string) list" where
  "busca_posicoes players [] jcp = Inr jcp"
| "busca_posicoes players (nome # nomes) jcp =
     bindE (buscar_posicao_jogador nome players) (\<lambda>posicao.
       busca_posicoes players nomes
         (case posicao of
            Some (c # cs) \<Rightarrow> dict_set nome (normalizar_posicao (c # cs)) jcp
          | _ \<Rightarrow> (if py_in ''Luiz'' nome then dict_set nome ''ZAG'' jcp
                  else if nome = ''Adelson'' then dict_set nome ''MEI'' jcp
                  else dict_set nome ''ATA'' jcp)))"

subsection \<open>Buckets and the quota fill\<close>

fun separa ::
  "(string \<times> string) list \<Rightarrow> string list \<Rightarrow> string list \<times> string list \<times> string list
     \<Rightarrow> string list \<times> string list \<times> string list" where
  "separa jcp [] (zagueiros, meias, atacantes) = (zagueiros, meias, atacantes)"
| "separa jcp (nome # nomes) (zagueiros, meias, atacantes) =
     (let posicao = dict_get jcp nome ''ATA'' in
      if posicao = ''ZAG'' then separa jcp nomes (zagueiros @ [nome], meias, atacantes)
      else if posicao = ''MEI'' then separa jcp nomes (zagueiros, meias @ [nome], atacantes)
      else separa jcp nomes (zagueiros, meias, atacantes @ [nome]))"

text \<open>\<^verbatim>\<open>if fila: time.append(fila.pop(0))\<close>\<close>

fun pop_para :: "string list \<times> string list \<Rightarrow> string list \<times> string list" where
  "pop_para (t, []) = (t, [])"
| "pop_para (t, x # fila) = (t @ [x], fila)"

definition monta_time ::
  "string list \<Rightarrow> string list \<Rightarrow> string list \<Rightarrow> string list
     \<Rightarrow> string list \<times> string list \<times> string list \<times> string list" where
  "monta_time t zagueiros meias atacantes =
     (let (t1, z1) = pop_para (t, zagueiros);
          (t2, z2) = pop_para (t1, z1);
          (t3, m1) = pop_para (t2, meias);
          (t4, a1) = pop_para (t3, atacantes);
          (t5, a2) = pop_para (t4, a1)
      in (t5, z2, m1, a2))"

fun distribui ::
  "string list list \<Rightarrow> string list \<Rightarrow> string list \<Rightarrow> string list
     \<Rightarrow> string list list \<times> string list \<times> string list \<times> string list" where
  "distribui [] zagueiros meias atacantes = ([], zagueiros, meias, atacantes)"
| "distribui (t # ts) zagueiros meias atacantes =
     (let (t', z, m, a) = monta_time t zagueiros meias atacantes;
          (ts', z', m', a') = distribui ts z m a
      in (t' # ts', z', m', a'))"

text \<open>\<^verbatim>\<open>while len(times[i]) < 5 and todos_restantes: ...\<close>\<close>

fun preenche_time :: "string list \<Rightarrow> string list \<Rightarrow> string list \<times> string list" where
  "preenche_time t [] = (t, [])"
| "preenche_time t (x # restantes) =
     (if length t < 5 then preenche_time (t @ [x]) restantes else (t, x # restantes))"

fun preenche :: "string list list \<Rightarrow> string list \<Rightarrow> string list list \<times> string list" where
  "preenche [] restantes = ([], restantes)"
| "preenche (t # ts) restantes =
     (let (t', r) = preenche_time t restantes;
          (ts', r') = preenche ts r
      in (t' # ts', r'))"

text \<open>\<^verbatim>\<open>while len(times[i]) > 5: todos_restantes.append(times[i].pop())\<close>\<close>

function apara_time :: "string list \<Rightarrow> string list \<Rightarrow> string list \<times> string list" where
  "apara_time t restantes =
     (if length t > 5 then apara_time (butlast t) (restantes @ [last t]) else (t, restantes))"
  by pat_completeness auto
termination
  by (relation "measure (\<lambda>(t, r). length t)") auto

fun apara :: "string list list \<Rightarrow> string list \<Rightarrow> string list list \<times> string list" where
  "apara [] restantes = ([], restantes)"
| "apara (t # ts) restantes =
     (let (t', r) = apara_time t restantes;
          (ts', r') = apara ts r
      in (t' # ts', r'))"

subsection \<open>Constraint repair\<close>

definition eh_restrito :: "string \<Rightarrow> bool" where
  "eh_restrito j =
     (j \<in> set grupo_restrito \<or>
      (case map_of nome_alternativo j of None \<Rightarrow> False | Some a \<Rightarrow> a \<in> set grupo_restrito))"

definition jogadores_restritos_no_time :: "string list \<Rightarrow> string list" where
  "jogadores_restritos_no_time t = filter eh_restrito t"

text \<open>The first team, in order, that holds more than one restricted player, and the
  first restricted player of that team.\<close>

fun primeira_violacao :: "nat \<Rightarrow> string list list \<Rightarrow> (nat \<times> string) option" where
  "primeira_violacao idx [] = None"
| "primeira_violacao idx (t # ts) =
     (case jogadores_restritos_no_time t of
        j1 # j2 # js \<Rightarrow> Some (idx, j1)
      | _ \<Rightarrow> primeira_violacao (Suc idx) ts)"

fun procura_time :: "(nat \<Rightarrow> string list \<Rightarrow> bool) \<Rightarrow> nat \<Rightarrow> string list list \<Rightarrow> nat option" where
  "procura_time ok outro_idx [] = None"
| "procura_time ok outro_idx (t # ts) =
     (if ok outro_idx t then Some outro_idx else procura_time ok (Suc outro_idx) ts)"

fun altera :: "nat \<Rightarrow> ('a \<Rightarrow> 'a) \<Rightarrow> 'a list \<Rightarrow> 'a list" where
  "altera i f [] = []"
| "altera 0 f (x # xs) = f x # xs"
| "altera (Suc i) f (x # xs) = x # altera i f xs"

text \<open>One pass of the \<^verbatim>\<open>for idx, time in enumerate(times)\<close> loop: \<open>None\<close> when no team
  violates the restriction, otherwise the teams after the move.\<close>

definition corrige :: "string list list \<Rightarrow> string list list option" where
  "corrige tms =
     (case primeira_violacao 0 tms of
        None \<Rightarrow> None
      | Some (idx, jogador_para_mover) \<Rightarrow>
          let tms1 = altera idx (remove1 jogador_para_mover) tms in
          Some (case procura_time
                       (\<lambda>outro_idx outro_time. outro_idx \<noteq> idx \<and> \<not> list_ex eh_restrito outro_time
                          \<and> length outro_time < 5) 0 tms1 of
                  Some o1 \<Rightarrow> altera o1 (\<lambda>t. t @ [jogador_para_mover]) tms1
                | None \<Rightarrow>
                    (case procura_time
                            (\<lambda>outro_idx outro_time. outro_idx \<noteq> idx \<and> length outro_time < 5) 0 tms1 of
                       Some o2 \<Rightarrow> altera o2 (\<lambda>t. t @ [jogador_para_mover]) tms1
                     | None \<Rightarrow> tms1)))"

function repara :: "nat \<Rightarrow> string list list \<Rightarrow> nat \<times> string list list" where
  "repara tentativa tms =
     (if tentativa < max_tentativas
      then (case corrige tms of
              None \<Rightarrow> (tentativa, tms)
            | Some tms' \<Rightarrow> repara (tentativa + 1) tms')
      else (tentativa, tms))"
  by pat_completeness auto
termination
  by (relation "measure (\<lambda>(tentativa, tms). max_tentativas - tentativa)") auto

subsection \<open>Full redistribution after 50 attempts\<close>

fun coloca_restritos :: "string list \<Rightarrow> string list list \<Rightarrow> string list list" where
  "coloca_restritos [] tms = tms"
| "coloca_restritos (jogador # js) [] = []"
| "coloca_restritos (jogador # js) (t # ts) = (t @ [jogador]) # coloca_restritos js ts"

definition redistribui ::
  "sementes \<Rightarrow> (string \<times> string) list \<Rightarrow> string list list \<Rightarrow> string list list \<times> string list" where
  "redistribui s jcp tms =
     (let jogadores_restritos_restantes =
            shuffle (s_restritos s)
              (filter (\<lambda>j. list_ex (\<lambda>t. j \<in> set t) tms) grupo_restrito @
               filter (\<lambda>j. dict_get nome_alternativo j [] \<in> set grupo_restrito
                             \<and> list_ex (\<lambda>t. j \<in> set t) tms) (map fst nome_alternativo));
          tms1 = map (filter (\<lambda>j. j \<notin> set grupo_restrito \<and> j \<notin> set (map fst nome_alternativo))) tms;
          tms2 = coloca_restritos (take 4 jogadores_restritos_restantes) tms1;
          todos_jogadores = concat tms2;
          zagueiros_rest = shuffle (s_zagueiros_rest s)
                             (filter (\<lambda>j. map_of jcp j = Some ''ZAG'') todos_jogadores);
          meias_rest = shuffle (s_meias_rest s)
                             (filter (\<lambda>j. map_of jcp j = Some ''MEI'') todos_jogadores);
          atacantes_rest = shuffle (s_atacantes_rest s)
                             (filter (\<lambda>j. map_of jcp j = Some ''ATA'') todos_jogadores);
          (tms3, z, m, a) = distribui (map (\<lambda>t. []) tms2) zagueiros_rest meias_rest atacantes_rest
      in (tms3, todos_jogadores))"

subsection \<open>The payload\<close>

record time_info =
  numero :: nat
  jogadores :: "string list"
  posicoes_time :: "(string \<times> string) list"

record resultado =
  times_res :: "time_info list"
  time_5 :: "string list"
  posicoes :: "(string \<times> string) list"

datatype saida = Erro string | Sorteio resultado

fun conta_posicoes ::
  "(string \<times> string) list \<Rightarrow> string list \<Rightarrow> (string \<times> string) list \<times> (string \<times> string) list
     \<Rightarrow> (string \<times> string) list \<times> (string \<times> string) list" where
  "conta_posicoes jcp [] (pt, pr) = (pt, pr)"
| "conta_posicoes jcp (jogador # js) (pt, pr) =
     (let posicao = dict_get jcp jogador ''ATA''
      in conta_posicoes jcp js (dict_set jogador posicao pt, dict_set jogador posicao pr))"

fun monta_times ::
  "(string \<times> string) list \<Rightarrow> nat \<Rightarrow> string list list \<Rightarrow> (string \<times> string) list
     \<Rightarrow> time_info list \<times> (string \<times> string) list" where
  "monta_times jcp i [] pr = ([], pr)"
| "monta_times jcp i (t # ts) pr =
     (let (pt, pr1) = conta_posicoes jcp t ([], pr);
          (infos, pr2) = monta_times jcp (Suc i) ts pr1
      in (\<lparr>numero = i, jogadores = t, posicoes_time = pt\<rparr> # infos, pr2))"

fun posicoes_time_5 ::
  "json list \<Rightarrow> (string \<times> string) list \<Rightarrow> string list \<Rightarrow> (string \<times> string) list
     \<Rightarrow> py_error + (string \<times> string) list" where
  "posicoes_time_5 players jcp [] pr = Inr pr"
| "posicoes_time_5 players jcp (jogador # js) pr =
     (case map_of jcp jogador of
        Some p \<Rightarrow> posicoes_time_5 players jcp js (dict_set jogador p pr)
      | None \<Rightarrow>
          bindE (buscar_posicao_jogador jogador players) (\<lambda>posicao.
            posicoes_time_5 players jcp js
              (dict_set jogador
                 (case posicao of Some (c # cs) \<Rightarrow> normalizar_posicao (c # cs) | _ \<Rightarrow> ''ATA'') pr)))"

subsection \<open>The draw\<close>

text \<open>
  The body of \<^verbatim>\<open>sortear_times\<close> after players.json has been loaded, in three steps:
  the positions of the four names (\<open>busca_posicoes\<close>), the teams (lines 271 to 421 of
  app.py, which use the position table and the random source only), and the payload
  (lines 423 to 461). \<open>forma_times\<close> returns the teams together with the value of the
  variable \<open>todos_jogadores\<close>, which the redistribution assigns anew.
\<close>

definition forma_times ::
  "(string \<times> string) list \<Rightarrow> sementes \<Rightarrow> string list list \<times> string list" where
  "forma_times jcp s =
     (let (zagueiros0, meias0, atacantes0) = separa jcp todos_jogadores_inicial ([], [], []);
          zagueiros = shuffle (s_zagueiros s) zagueiros0;
          meias = shuffle (s_meias s) meias0;
          atacantes = shuffle (s_atacantes s) atacantes0;
          (tms1, z, m, a) = distribui (replicate 4 []) zagueiros meias atacantes;
          (tms2, restantes2) = preenche tms1 (z @ m @ a);
          (tms3, restantes3) = apara tms2 restantes2;
          (tentativa, tms4) = repara 0 tms3
      in if tentativa \<ge> max_tentativas then redistribui s jcp tms4
         else (tms4, todos_jogadores_inicial))"

definition monta_resultado ::
  "json list \<Rightarrow> (string \<times> string) list \<Rightarrow> string list list \<Rightarrow> string list
     \<Rightarrow> py_error + resultado" where
  "monta_resultado players jcp tms todos_jogadores =
     (let time5 = filter (\<lambda>j. j \<notin> set (concat tms)) todos_jogadores;
          (infos, pr) = monta_times jcp 1 tms []
      in bindE (posicoes_time_5 players jcp time5 pr) (\<lambda>pr'.
           Inr \<lparr>times_res = infos, time_5 = time5, posicoes = pr'\<rparr>))"

definition sortear_jogadores :: "json list \<Rightarrow> sementes \<Rightarrow> py_error + resultado" where
  "sortear_jogadores players s =
     bindE (busca_posicoes players jogadores_sem_posicao jogadores_com_posicao_inicial) (\<lambda>jcp.
       let (tms, todos_jogadores) = forma_times jcp s
       in monta_resultado players jcp tms todos_jogadores)"

text \<open>
  \<^verbatim>\<open>sortear_times\<close> itself. Reading the file is the only input: \<open>Inl msg\<close> when
  \<^verbatim>\<open>open\<close> or \<^verbatim>\<open>read\<close> raises (with the text of the exception), \<open>Inr content\<close>
  otherwise. The \<^verbatim>\<open>try\<close> block covers the reading and the parsing, nothing after.
\<close>

fun str_erro :: "py_error \<Rightarrow> string" where
  "str_erro AttributeError = ''AttributeError''"
| "str_erro JSONDecodeError = ''JSONDecodeError''"
| "str_erro TypeError = ''TypeError''"
| "str_erro ValueError = ''ValueError''"

definition sortear_times :: "string + string \<Rightarrow> sementes \<Rightarrow> py_error + saida" where
  "sortear_times arquivo s =
     (case arquivo of
        Inl msg \<Rightarrow> Inr (Erro (''Erro ao carregar players.json: '' @ msg))
      | Inr content \<Rightarrow>
          (case parse_mongodb_json content of
             Inl e \<Rightarrow> Inr (Erro (''Erro ao carregar players.json: '' @ str_erro e))
           | Inr players \<Rightarrow>
               bindE (sortear_jogadores players s) (\<lambda>r. Inr (Sorteio r))))"

section \<open>Award and statistics aggregator (gerar_ranking.py, extrair_awards_jogadores)\<close>

definition campos_estatisticas_gerais :: "string list" where
  "campos_estatisticas_gerais = [''totalAssistence'', ''totalGoals'']"

definition campos_estatisticas_partidas :: "string list" where
  "campos_estatisticas_partidas = [''totalGamePlayed'', ''totalWins'', ''totalDefeat'', ''totalDraw'']"

definition campos_estatisticas_goleiros :: "string list" where
  "campos_estatisticas_goleiros = [''totalGamePlayed'', ''totalWins'', ''totalDefeat'', ''totalDraw'']"

definition categorias_awards :: "string list" where
  "categorias_awards =
     [''craque'', ''artilheiro'', ''garcom'', ''muralha'', ''pereba'', ''bolaMurcha'', ''xerifao'']"

text \<open>
  \<^verbatim>\<open>int(s)\<close> on a string: surrounding whitespace, an optional sign, decimal digits with
  single underscores between them; \<open>None\<close> is \<^verbatim>\<open>ValueError\<close>.
\<close>

fun digitos_validos :: "string \<Rightarrow> bool" where
  "digitos_validos [] = False"
| "digitos_validos [d] = is_digit d"
| "digitos_validos (d # e # r) =
     (is_digit d \<and> (if e = CHR ''_'' then digitos_validos r else digitos_validos (e # r)))"

definition py_int_str :: "string \<Rightarrow> int option" where
  "py_int_str s0 =
     (let s = py_strip s0;
          (neg, ds) = (case s of [] \<Rightarrow> (False, s)
                       | c # r \<Rightarrow> if c = CHR ''-'' then (True, r)
                                  else if c = CHR ''+'' then (False, r) else (False, s))
      in if digitos_validos ds
         then (let n = int (nat_of_digits (filter (\<lambda>c. c \<noteq> CHR ''_'') ds))
               in Some (if neg then - n else n))
         else None)"

text \<open>
  \<^verbatim>\<open>isinstance(v, (int, str))\<close> followed by \<^verbatim>\<open>int(v)\<close> inside \<^verbatim>\<open>try\<close>: the integer counted,
  or \<open>None\<close> when the value is of another type or the conversion raises. A boolean is
  an \<^verbatim>\<open>int\<close> in Python.
\<close>

fun inteiro_de :: "json \<Rightarrow> int option" where
  "inteiro_de (JInt n) = Some n"
| "inteiro_de (JBool b) = Some (if b then 1 else 0)"
| "inteiro_de (JString s) = py_int_str s"
| "inteiro_de _ = None"

type_synonym dados = "(string \<times> (string \<times> int) list) list"

text \<open>\<^verbatim>\<open>dados_alvo[nome][categoria] += qtd\<close> on a \<^verbatim>\<open>defaultdict\<close> of \<^verbatim>\<open>defaultdict(int)\<close>.\<close>

definition soma_em :: "string \<Rightarrow> string \<Rightarrow> int \<Rightarrow> dados \<Rightarrow> dados" where
  "soma_em nome categoria qtd d =
     (let interno = dict_get d nome []
      in dict_set nome (dict_set categoria (dict_get interno categoria 0 + qtd) interno) d)"

definition acumula :: "string \<Rightarrow> string \<Rightarrow> json \<Rightarrow> dados \<Rightarrow> dados" where
  "acumula nome categoria valor d =
     (case inteiro_de valor of
        None \<Rightarrow> d
      | Some qtd \<Rightarrow> if qtd > 0 then soma_em nome categoria qtd d else d)"

fun acumula_awards :: "string \<Rightarrow> (string \<times> json) list \<Rightarrow> dados \<Rightarrow> dados" where
  "acumula_awards nome [] d = d"
| "acumula_awards nome ((categoria, quantidade) # itens) d =
     acumula_awards nome itens (acumula nome categoria quantidade d)"

fun acumula_campos :: "string \<Rightarrow> (string \<times> json) list \<Rightarrow> string list \<Rightarrow> dados \<Rightarrow> dados" where
  "acumula_campos nome team_data [] d = d"
| "acumula_campos nome team_data (campo # campos) d =
     acumula_campos nome team_data campos
       (acumula nome campo (dict_get team_data campo (JInt 0)) d)"

text \<open>The search \<^verbatim>\<open>for team in included_teams\<close> for the entry of the player's own team.\<close>

fun busca_time :: "string \<Rightarrow> json list \<Rightarrow> py_error + (string \<times> json) list option" where
  "busca_time player_team_code [] = Inr None"
| "busca_time player_team_code (JObject team # teams) =
     bindE (str_strip (dict_get team ''teamCode'' (JString []))) (\<lambda>team_code.
       if team_code = player_team_code then Inr (Some team)
       else busca_time player_team_code teams)"
| "busca_time player_team_code (_ # teams) = busca_time player_team_code teams"

definition team_data_de :: "json \<Rightarrow> py_error + (string \<times> json) list option" where
  "team_data_de player =
     bindE (py_get player ''teamCode'' (JString [])) (\<lambda>cv.
     bindE (str_strip cv) (\<lambda>player_team_code.
     bindE (py_get player ''includedTeams'' (JArray [])) (\<lambda>included_teams.
       case included_teams of
         JArray teams \<Rightarrow> if player_team_code \<noteq> [] then busca_time player_team_code teams
                         else Inr None
       | _ \<Rightarrow> Inr None)))"

text \<open>What one team entry adds to the table of the player's population.\<close>

definition soma_time :: "string \<Rightarrow> bool \<Rightarrow> (string \<times> json) list \<Rightarrow> dados \<Rightarrow> py_error + dados" where
  "soma_time nome is_goleiro team_data d =
     (case dict_get team_data ''awards'' (JObject []) of
        JObject awards_team \<Rightarrow>
          (let d1 = acumula_awards nome awards_team d;
               d2 = acumula_campos nome team_data campos_estatisticas_gerais d1;
               campos_partidas = (if is_goleiro then campos_estatisticas_goleiros
                                  else campos_estatisticas_partidas)
           in Inr (acumula_campos nome team_data campos_partidas d2))
      | _ \<Rightarrow> Inl AttributeError)"

record estado_awards =
  dados_por_jogador :: dados
  dados_por_goleiro :: dados
  imagens_jogadores :: "(string \<times> string) list"
  nomes_todos_jogadores :: "string set"

text \<open>The body of \<^verbatim>\<open>for player in players\<close>.\<close>

text \<open>\<^verbatim>\<open>nome = player.get('fullName', 'Sem nome').strip()\<close> and
  \<^verbatim>\<open>is_goleiro = 'goleiro' in player.get('position', '').lower()\<close>.\<close>

definition nome_de :: "json \<Rightarrow> py_error + string" where
  "nome_de player = bindE (py_get player ''fullName'' (JString ''Sem nome'')) str_strip"

definition is_goleiro_de :: "json \<Rightarrow> py_error + bool" where
  "is_goleiro_de player =
     bindE (py_get player ''position'' (JString [])) (\<lambda>pv.
     bindE (str_lower pv) (\<lambda>position. Inr (py_in ''goleiro'' position)))"

definition processa_player :: "json \<Rightarrow> estado_awards \<Rightarrow> py_error + estado_awards" where
  "processa_player player st =
     bindE (nome_de player) (\<lambda>nome.
     bindE (is_goleiro_de player) (\<lambda>is_goleiro.
     bindE (py_get player ''imagePlayer'' (JString [])) (\<lambda>iv.
     bindE (str_strip iv) (\<lambda>image_url.
     bindE (team_data_de player) (\<lambda>team_data.
       let nomes = (if nome \<noteq> [] \<and> nome \<noteq> ''Sem nome''
                    then insert nome (nomes_todos_jogadores st) else nomes_todos_jogadores st);
           imagens = (if image_url \<noteq> [] \<and> startswith image_url ''http''
                         \<and> nome \<notin> set (map fst (imagens_jogadores st))
                      then dict_set nome image_url (imagens_jogadores st)
                      else imagens_jogadores st);
           st1 = st\<lparr>imagens_jogadores := imagens, nomes_todos_jogadores := nomes\<rparr>
       in case team_data of
            Some (campo # resto) \<Rightarrow>
              if is_goleiro
              then bindE (soma_time nome True (campo # resto) (dados_por_goleiro st1))
                     (\<lambda>d. Inr (st1\<lparr>dados_por_goleiro := d\<rparr>))
              else bindE (soma_time nome False (campo # resto) (dados_por_jogador st1))
                     (\<lambda>d. Inr (st1\<lparr>dados_por_jogador := d\<rparr>))
          | _ \<Rightarrow> Inr st1)))))"

fun processa_players :: "json list \<Rightarrow> estado_awards \<Rightarrow> py_error + estado_awards" where
  "processa_players [] st = Inr st"
| "processa_players (player # players) st =
     bindE (processa_player player st) (\<lambda>st'. processa_players players st')"

definition estado_inicial :: estado_awards where
  "estado_inicial =
     \<lparr>dados_por_jogador = [], dados_por_goleiro = [], imagens_jogadores = [],
      nomes_todos_jogadores = {}\<rparr>"

text \<open>The tie-break tables: name to (wins, matches played).\<close>

definition dados_completos :: "dados \<Rightarrow> (string \<times> int \<times> int) list" where
  "dados_completos d =
     map (\<lambda>(nome_jogador, ds). (nome_jogador, dict_get ds ''totalWins'' 0, dict_get ds ''totalGamePlayed'' 0)) d"

text \<open>\<^verbatim>\<open>categorias[categoria].append(item)\<close> on a \<^verbatim>\<open>defaultdict(list)\<close>.\<close>

definition anexa :: "string \<Rightarrow> string \<times> int \<Rightarrow> (string \<times> (string \<times> int) list) list
     \<Rightarrow> (string \<times> (string \<times> int) list) list" where
  "anexa categoria item cats = dict_set categoria (dict_get cats categoria [] @ [item]) cats"

fun agrupa_jogador :: "string \<Rightarrow> (string \<times> int) list \<Rightarrow> (string \<times> (string \<times> int) list) list
     \<Rightarrow> (string \<times> (string \<times> int) list) list" where
  "agrupa_jogador nome_jogador [] cats = cats"
| "agrupa_jogador nome_jogador ((categoria, quantidade_total) # ds) cats =
     agrupa_jogador nome_jogador ds
       (if quantidade_total > 0 then anexa categoria (nome_jogador, quantidade_total) cats else cats)"

fun agrupa_jogadores :: "dados \<Rightarrow> (string \<times> (string \<times> int) list) list
     \<Rightarrow> (string \<times> (string \<times> int) list) list" where
  "agrupa_jogadores [] cats = cats"
| "agrupa_jogadores ((nome_jogador, ds) # d) cats =
     agrupa_jogadores d (agrupa_jogador nome_jogador ds cats)"

fun agrupa_goleiro :: "string \<Rightarrow> (string \<times> int) list \<Rightarrow> (string \<times> (string \<times> int) list) list
     \<Rightarrow> (string \<times> (string \<times> int) list) list" where
  "agrupa_goleiro nome_jogador [] cats = cats"
| "agrupa_goleiro nome_jogador ((categoria, quantidade_total) # ds) cats =
     agrupa_goleiro nome_jogador ds
       (if quantidade_total > 0 then
          (if categoria \<in> set categorias_awards then cats
           else if categoria \<in> set campos_estatisticas_goleiros
             then anexa (''goleiro_'' @ categoria) (nome_jogador, quantidade_total) cats
           else anexa categoria (nome_jogador, quantidade_total) cats)
        else cats)"

fun agrupa_goleiros :: "dados \<Rightarrow> (string \<times> (string \<times> int) list) list
     \<Rightarrow> (string \<times> (string \<times> int) list) list" where
  "agrupa_goleiros [] cats = cats"
| "agrupa_goleiros ((nome_jogador, ds) # d) cats =
     agrupa_goleiros d (agrupa_goleiro nome_jogador ds cats)"

definition chave_ordenacao ::
  "(string \<times> int \<times> int) list \<Rightarrow> (string \<times> int \<times> int) list \<Rightarrow> string \<times> int \<Rightarrow> int \<times> int \<times> int" where
  "chave_ordenacao dados_completos_jogadores dados_completos_goleiros item =
     (let (nome_jogador, quantidade) = item;
          (vitorias, partidas) =
             dict_get dados_completos_jogadores nome_jogador
               (dict_get dados_completos_goleiros nome_jogador (0, 999999))
      in (quantidade, vitorias, - partidas))"

text \<open>\<^verbatim>\<open>xs.sort(key=k, reverse=True)\<close>: descending by key, equal keys in their original
  order (the list is reversed, sorted stably and reversed again).\<close>

definition sort_reverse :: "('a \<Rightarrow> 'k::linorder) \<Rightarrow> 'a list \<Rightarrow> 'a list" where
  "sort_reverse k xs = rev (sort_key k (rev xs))"

definition categorias_de :: "estado_awards \<Rightarrow> (string \<times> (string \<times> int) list) list" where
  "categorias_de st =
     (let dados_completos_jogadores = dados_completos (dados_por_jogador st);
          dados_completos_goleiros = dados_completos (dados_por_goleiro st);
          cats = agrupa_goleiros (dados_por_goleiro st) (agrupa_jogadores (dados_por_jogador st) [])
      in map (\<lambda>(categoria, itens).
                (categoria,
                 sort_reverse (chave_ordenacao dados_completos_jogadores dados_completos_goleiros) itens))
           cats)"

definition extrair_awards_jogadores ::
  "json list \<Rightarrow> py_error + (string \<times> (string \<times> int) list) list \<times> (string \<times> string) list \<times> string list" where
  "extrair_awards_jogadores players =
     bindE (processa_players players estado_inicial) (\<lambda>st.
       Inr (categorias_de st, imagens_jogadores st, sorted_list_of_set (nomes_todos_jogadores st)))"

section \<open>Notions used in the statements\<close>

definition codigos :: "string set" where
  "codigos = {''ZAG'', ''MEI'', ''ATA''}"

definition sorteio_de :: "py_error + saida \<Rightarrow> resultado option" where
  "sorteio_de x = (case x of Inr (Sorteio r) \<Rightarrow> Some r | _ \<Rightarrow> None)"

text \<open>The tie-break pair (wins, matches played) that \<open>chave_ordenacao\<close> looks up for a
  name: from the table of the non-goalkeepers, else from the table of the goalkeepers, else
  (0, 999999).\<close>

definition desempate :: "estado_awards \<Rightarrow> string \<Rightarrow> int \<times> int" where
  "desempate st nome_jogador =
     dict_get (dados_completos (dados_por_jogador st)) nome_jogador
       (dict_get (dados_completos (dados_por_goleiro st)) nome_jogador (0, 999999))"

text \<open>
  For the team-scoping claim. \<open>total_de\<close> reads an aggregated counter (0 when absent).
  \<open>valor_contado\<close> is the value a field counts for: the integer it holds or spells when
  that is positive, 0 otherwise. \<open>casa_com_time\<close> says that an entry of \<open>includedTeams\<close>
  is a mapping whose trimmed \<open>teamCode\<close> is the given one. \<open>contribuicao\<close> is what one
  entry holds for a counter: the awards of that name, plus the statistic of that name when
  it is one of the fields read for the player's population. \<open>com_times\<close> replaces the
  \<open>includedTeams\<close> of a record.
\<close>

definition total_de :: "dados \<Rightarrow> string \<Rightarrow> string \<Rightarrow> int" where
  "total_de d nome campo = dict_get (dict_get d nome []) campo 0"





definition imagem_de :: "json \<Rightarrow> py_error + string" where
  "imagem_de player = bindE (py_get player ''imagePlayer'' (JString [])) str_strip"

definition tabela_de :: "bool \<Rightarrow> estado_awards \<Rightarrow> dados" where
  "tabela_de is_goleiro st = (if is_goleiro then dados_por_goleiro st else dados_por_jogador st)"

text \<open>
  For the goalkeeper claim. \<open>destino\<close> is the category key under which the second
  grouping loop files a goalkeeper's counter. \<open>dados_ok\<close> says that a table is a
  dictionary of dictionaries: no key occurs twice.
\<close>

definition destino :: "string \<Rightarrow> string" where
  "destino c = (if c \<in> set campos_estatisticas_goleiros then ''goleiro_'' @ c else c)"

definition dados_ok :: "dados \<Rightarrow> bool" where
  "dados_ok d = (distinct (map fst d) \<and> (\<forall>(n, ds) \<in> set d. distinct (map fst ds)))"

text \<open>
  For the multi-object claim. The line loop feeds the scanner every character of the text
  except the line breaks; \<open>varre\<close> is that scan of a text. A text is \<open>neutro\<close> when,
  from any depth outside a string, the scan ends at the same depth outside a string and never
  goes below it on the way; \<open>interior\<close> says that strictly between its first and its
  last character the depth stays above the starting depth. \<open>fecha_string\<close> is the
  same for the text after an opening quote up to the closing quote: the scan leaves the
  string at the end and the depth does not move. \<open>simples\<close> are the characters that the
  scanner ignores outside a string as well.
\<close>

definition varre :: "int \<times> bool \<times> bool \<Rightarrow> string \<Rightarrow> int \<times> bool \<times> bool" where
  "varre st w = foldl conta_char st (filter (\<lambda>c. c \<noteq> nova_linha) w)"

definition neutro :: "string \<Rightarrow> bool" where
  "neutro w \<longleftrightarrow>
     (\<forall>d. varre (d, False, False) w = (d, False, False)
          \<and> (\<forall>k. d \<le> fst (varre (d, False, False) (take k w))))"

definition interior :: "string \<Rightarrow> bool" where
  "interior w \<longleftrightarrow>
     (\<forall>d k. 0 < k \<and> k < length w \<longrightarrow> d + 1 \<le> fst (varre (d, False, False) (take k w)))"

definition fecha_string :: "string \<Rightarrow> bool" where
  "fecha_string body \<longleftrightarrow>
     (\<forall>d. varre (d, True, False) body = (d, False, False)
          \<and> (\<forall>k. fst (varre (d, True, False) (take k body)) = d))"

definition simples :: "char \<Rightarrow> bool" where
  "simples c \<longleftrightarrow>
     c \<noteq> aspas \<and> c \<noteq> barra \<and> c \<noteq> CHR ''{'' \<and> c \<noteq> CHR ''}'' \<and> c \<noteq> CHR ''['' \<and> c \<noteq> CHR '']''"

text \<open>A text that \<^verbatim>\<open>json.loads\<close> reads as a mapping with the key \<open>fullName\<close>, written
  from its opening brace to its closing brace.\<close>

definition objeto_com_fullName :: "string \<Rightarrow> json \<Rightarrow> bool" where
  "objeto_com_fullName t data \<longleftrightarrow>
     json_loads t = Inr data \<and> is_dict data \<and> tem_chave ''fullName'' data
     \<and> t \<noteq> [] \<and> hd t = CHR ''{'' \<and> last t = CHR ''}''"

section \<open>Concrete inputs used below\<close>

definition entre_aspas :: "string \<Rightarrow> string" where
  "entre_aspas x = aspas # x @ [aspas]"

text \<open>Seeds that leave every list in its order, and seeds that give the attackers the
  order Arnaldo, Nilson, Vertinho, Kelvin, ... in the first shuffle and bring Arnaldo and
  Kelvin to the front in the shuffle of the redistribution.\<close>

definition sementes_em_ordem :: sementes where
  "sementes_em_ordem =
     \<lparr>s_zagueiros = [], s_meias = [], s_atacantes = [], s_restritos = [],
      s_zagueiros_rest = [], s_meias_rest = [], s_atacantes_rest = []\<rparr>"

definition sementes_redistribuicao :: sementes where
  "sementes_redistribuicao =
     \<lparr>s_zagueiros = [], s_meias = [], s_atacantes = [0, 1, 0, 2], s_restritos = [],
      s_zagueiros_rest = [], s_meias_rest = [], s_atacantes_rest = [1, 1]\<rparr>"

text \<open>The text \<^verbatim>\<open>{"a":1}\<close>, the text \<^verbatim>\<open>{"fullName": null}\<close>, and the one-line text
  \<^verbatim>\<open>{"fullName":"A"}{"fullName":"B"}\<close>.\<close>

definition texto_sem_fullName :: string where
  "texto_sem_fullName = ''{'' @ entre_aspas ''a'' @ '':1}''"


definition texto_dois_objetos_uma_linha :: string where
  "texto_dois_objetos_uma_linha =
     ''{'' @ entre_aspas ''fullName'' @ '':'' @ entre_aspas ''A'' @ ''}'' @
     ''{'' @ entre_aspas ''fullName'' @ '':'' @ entre_aspas ''B'' @ ''}''"

text \<open>A players.json of two lines,
  \<^verbatim>\<open>{"fullName":"Nilson","position":"Goleiro"}\<close> and
  \<^verbatim>\<open>{"fullName":"Luan","position":"Volante"}\<close>.\<close>

definition texto_nilson_luan :: string where
  "texto_nilson_luan =
     ''{'' @ entre_aspas ''fullName'' @ '':'' @ entre_aspas ''Nilson'' @ '','' @
             entre_aspas ''position'' @ '':'' @ entre_aspas ''Goleiro'' @ ''}'' @ [nova_linha] @
     ''{'' @ entre_aspas ''fullName'' @ '':'' @ entre_aspas ''Luan'' @ '','' @
             entre_aspas ''position'' @ '':'' @ entre_aspas ''Volante'' @ ''}''"

text \<open>Three players of team A with 3, 3 and 5 goals; the first two differ in wins.\<close>

definition registro_com_gols :: "string \<Rightarrow> int \<Rightarrow> int \<Rightarrow> int \<Rightarrow> json" where
  "registro_com_gols nome gols vitorias partidas =
     JObject [(''fullName'', JString nome), (''position'', JString ''Atacante''),
              (''teamCode'', JString ''A''),
              (''includedTeams'',
                 JArray [JObject [(''teamCode'', JString ''B''), (''totalGoals'', JInt 40)],
                         JObject [(''teamCode'', JString ''A''), (''totalGoals'', JInt gols),
                                  (''totalWins'', JInt vitorias),
                                  (''totalGamePlayed'', JInt partidas)]])]"



text \<open>A goalkeeper of team A with one goal, two wins, three matches and four craque
  awards.\<close>

definition registro_goleiro_gil :: json where
  "registro_goleiro_gil =
     JObject [(''fullName'', JString ''Gil''), (''position'', JString ''Goleiro''),
              (''teamCode'', JString ''A''),
              (''includedTeams'',
                 JArray [JObject [(''teamCode'', JString ''A''), (''totalGoals'', JInt 1),
                                  (''totalWins'', JInt 2), (''totalGamePlayed'', JInt 3),
                                  (''awards'', JObject [(''craque'', JInt 4)])]])]"

definition estado_gil_ze :: estado_awards where
  "estado_gil_ze =
     \<lparr>dados_por_jogador = [(''Ze'', [(''craque'', 1)])],
      dados_por_goleiro =
        [(''Gil'', [(''craque'', 4), (''totalGoals'', 1), (''totalGamePlayed'', 3), (''totalWins'', 2)])],
      imagens_jogadores = [], nomes_todos_jogadores = {''Gil'', ''Ze''}\<rparr>"

definition categorias_gil_ze :: "(string \<times> (string \<times> int) list) list" where
  "categorias_gil_ze =
     [(''craque'', [(''Ze'', 1)]), (''totalGoals'', [(''Gil'', 1)]),
      (''goleiro_totalGamePlayed'', [(''Gil'', 3)]), (''goleiro_totalWins'', [(''Gil'', 2)])]"

definition tres_jogadores :: "json list" where
  "tres_jogadores =
     [registro_com_gols ''Ana'' 3 1 5, registro_com_gols ''Bia'' 3 2 4, registro_com_gols ''Cris'' 5 0 4]"

definition registro_luan_silva :: json where
  "registro_luan_silva =
     JObject [(''fullName'', JString ''Luan Silva''), (''position'', JString ''Atacante'')]"

definition registro_luan :: json where
  "registro_luan = JObject [(''fullName'', JString ''Luan''), (''position'', JString ''Zagueiro'')]"

definition registro_ze_goleiro :: json where
  "registro_ze_goleiro = JObject [(''fullName'', JString ''Ze''), (''position'', JString ''Goleiro'')]"

definition registro_ze_atacante :: json where
  "registro_ze_atacante =
     JObject [(''fullName'', JString ''Ze''), (''position'', JString ''Atacante''),
              (''teamCode'', JString ''A''),
              (''includedTeams'',
                 JArray [JObject [(''teamCode'', JString ''A''),
                                  (''awards'', JObject [(''craque'', JInt 1)])]])]"

section \<open>The draw: team sizes and the restricted group\<close>

text \<open>
  C1. The claim: every draw gives four teams of exactly five players, \<open>time_5\<close> holds
  all other names of the roster, and the five groups together are the 25 names. The code
  at an empty players.json with shuffles that leave every list in its order: the first team
  gets Tavares, Arnaldo and Vertinho; the repair loop removes Tavares and then Arnaldo from
  it and finds no team with fewer than five players to take them, so the first team is
  returned with three players.
\<close>

theorem sorteio_time_com_tres_jogadores:
  "sortear_times (Inr []) sementes_em_ordem =
     Inr (Sorteio
       \<lparr>times_res =
          [\<lparr>numero = 1, jogadores = [''Ronald'', ''Luiz Kelvin'', ''Vertinho''],
            posicoes_time = [(''Ronald'', ''ZAG''), (''Luiz Kelvin'', ''ZAG''), (''Vertinho'', ''ATA'')]\<rparr>,
           \<lparr>numero = 2, jogadores = [''Kawa Messi'', ''Henrique'', ''Adelson'', ''Nilson'', ''Jonis''],
            posicoes_time = [(''Kawa Messi'', ''ZAG''), (''Henrique'', ''ZAG''), (''Adelson'', ''MEI''),
                             (''Nilson'', ''ATA''), (''Jonis'', ''ATA'')]\<rparr>,
           \<lparr>numero = 3, jogadores = [''Cabinha'', ''Weslly'', ''Vini'', ''Deyvde'', ''Kelvin''],
            posicoes_time = [(''Cabinha'', ''ZAG''), (''Weslly'', ''ZAG''), (''Vini'', ''MEI''),
                             (''Deyvde'', ''ATA''), (''Kelvin'', ''ATA'')]\<rparr>,
           \<lparr>numero = 4, jogadores = [''Guilherme'', ''Samuel'', ''Andrew'', ''Luan'', ''Lito''],
            posicoes_time = [(''Guilherme'', ''ZAG''), (''Samuel'', ''ZAG''), (''Andrew'', ''ATA''),
                             (''Luan'', ''ATA''), (''Lito'', ''ZAG'')]\<rparr>],
        time_5 = [''Arnaldo'', ''Tavares'', ''Caio'', ''Matador'', ''Israel'', ''Luiz'', ''Arthur''],
        posicoes =
          [(''Ronald'', ''ZAG''), (''Luiz Kelvin'', ''ZAG''), (''Vertinho'', ''ATA''),
           (''Kawa Messi'', ''ZAG''), (''Henrique'', ''ZAG''), (''Adelson'', ''MEI''),
           (''Nilson'', ''ATA''), (''Jonis'', ''ATA''), (''Cabinha'', ''ZAG''),
           (''Weslly'', ''ZAG''), (''Vini'', ''MEI''), (''Deyvde'', ''ATA''),
           (''Kelvin'', ''ATA''), (''Guilherme'', ''ZAG''), (''Samuel'', ''ZAG''),
           (''Andrew'', ''ATA''), (''Luan'', ''ATA''), (''Lito'', ''ZAG''),
           (''Arnaldo'', ''ATA''), (''Tavares'', ''MEI''), (''Caio'', ''ZAG''),
           (''Matador'', ''ATA''), (''Israel'', ''ATA''), (''Luiz'', ''ZAG''),
           (''Arthur'', ''ATA'')]\<rparr>)"
  by code_simp

text \<open>
  C2. The claim: no team of a draw holds two players of the restricted group, also after
  the 50 attempts are used up and the redistribution runs. The code at an empty
  players.json with the first team holding Tavares and Arnaldo and the second Vertinho and
  Kelvin: Tavares is removed and finds no place, then the three others are moved to and fro
  between the first two teams until the 50 attempts are used up. The redistribution puts one
  restricted player on each team and then empties all teams into the position buckets again,
  so the quota fill decides alone: Arnaldo and Kelvin are the first two attackers and both
  go to the first team. Four teams hold 18 names, \<open>time_5\<close> holds one.
\<close>

theorem sorteio_redistribuicao_junta_restritos:
  "sortear_times (Inr []) sementes_redistribuicao =
     Inr (Sorteio
       \<lparr>times_res =
          [\<lparr>numero = 1, jogadores = [''Ronald'', ''Luiz Kelvin'', ''Adelson'', ''Arnaldo'', ''Kelvin''],
            posicoes_time = [(''Ronald'', ''ZAG''), (''Luiz Kelvin'', ''ZAG''), (''Adelson'', ''MEI''),
                             (''Arnaldo'', ''ATA''), (''Kelvin'', ''ATA'')]\<rparr>,
           \<lparr>numero = 2, jogadores = [''Kawa Messi'', ''Henrique'', ''Vini'', ''Nilson'', ''Jonis''],
            posicoes_time = [(''Kawa Messi'', ''ZAG''), (''Henrique'', ''ZAG''), (''Vini'', ''MEI''),
                             (''Nilson'', ''ATA''), (''Jonis'', ''ATA'')]\<rparr>,
           \<lparr>numero = 3, jogadores = [''Cabinha'', ''Weslly'', ''Deyvde'', ''Vertinho''],
            posicoes_time = [(''Cabinha'', ''ZAG''), (''Weslly'', ''ZAG''), (''Deyvde'', ''ATA''),
                             (''Vertinho'', ''ATA'')]\<rparr>,
           \<lparr>numero = 4, jogadores = [''Guilherme'', ''Samuel'', ''Andrew'', ''Luan''],
            posicoes_time = [(''Guilherme'', ''ZAG''), (''Samuel'', ''ZAG''), (''Andrew'', ''ATA''),
                             (''Luan'', ''ATA'')]\<rparr>],
        time_5 = [''Lito''],
        posicoes =
          [(''Ronald'', ''ZAG''), (''Luiz Kelvin'', ''ZAG''), (''Adelson'', ''MEI''),
           (''Arnaldo'', ''ATA''), (''Kelvin'', ''ATA''), (''Kawa Messi'', ''ZAG''),
           (''Henrique'', ''ZAG''), (''Vini'', ''MEI''), (''Nilson'', ''ATA''),
           (''Jonis'', ''ATA''), (''Cabinha'', ''ZAG''), (''Weslly'', ''ZAG''),
           (''Deyvde'', ''ATA''), (''Vertinho'', ''ATA''), (''Guilherme'', ''ZAG''),
           (''Samuel'', ''ZAG''), (''Andrew'', ''ATA''), (''Luan'', ''ATA''),
           (''Lito'', ''ZAG'')]\<rparr>)"
  by code_simp

section \<open>The parser: records without fullName\<close>

text \<open>
  C5. The claim: every element the parser returns is a mapping with a \<open>fullName\<close> key,
  also when the whole-text fallback is used. The code at the text \<^verbatim>\<open>{"a":1}\<close>: the line scan
  drops the object because it has no \<open>fullName\<close>, the list is empty, the fallback parses
  the same text and returns the object without the test the line scan makes.
\<close>

theorem parse_fallback_sem_fullName:
  "parse_mongodb_json texto_sem_fullName = Inr [JObject [(''a'', JInt 1)]]
   \<and> \<not> tem_chave ''fullName'' (JObject [(''a'', JInt 1)])"
  by code_simp

section \<open>The resolver: exact match and word match\<close>

text \<open>
  C8. The claim: when some record's name equals the query, the resolver returns the position
  of such a record. The code with the records Luan Silva (Atacante) and Luan (Zagueiro) and
  the query Luan: the one loop tests each record for equality and for word containment
  before it goes to the next record, so Luan Silva answers first and the result is ATA,
  while the record whose name equals the query is a ZAG.
\<close>

theorem busca_palavra_antes_do_exato:
  "buscar_posicao_jogador ''Luan'' [registro_luan_silva, registro_luan] = Inr (Some ''ATA'')
   \<and> bindE (py_get registro_luan ''fullName'' (JString [])) str_strip = Inr ''Luan''
   \<and> extrair_posicao_normalizada registro_luan = Inr ''ZAG''"
  by code_simp

section \<open>The draw: position codes of the payload\<close>

lemma bindE_Inr_iff: "bindE m f = Inr y \<longleftrightarrow> (\<exists>x. m = Inr x \<and> f x = Inr y)"
  by (cases m) (auto simp: bindE_def)

lemma normalizar_posicao_codigo: "normalizar_posicao p \<in> codigos"
  by (simp add: normalizar_posicao_def codigos_def Let_def)

lemma set_dict_set: "set (dict_set k v d) \<subseteq> insert (k, v) (set d)"
  by (induction d) (auto split: if_splits)

lemma codigos_membros: "''ZAG'' \<in> codigos" "''MEI'' \<in> codigos" "''ATA'' \<in> codigos"
  by (simp_all add: codigos_def)

lemma valores_dict_set:
  "snd ` set d \<subseteq> S \<Longrightarrow> v \<in> S \<Longrightarrow> snd ` set (dict_set k v d) \<subseteq> S"
  using set_dict_set [of k v d] by fastforce

lemma dict_get_valores: "snd ` set d \<subseteq> S \<Longrightarrow> dflt \<in> S \<Longrightarrow> dict_get d k dflt \<in> S"
  by (auto simp: dict_get_def split: option.splits dest!: map_of_SomeD)

lemma busca_posicoes_codigos:
  "busca_posicoes players nomes jcp = Inr jcp' \<Longrightarrow> snd ` set jcp \<subseteq> codigos
     \<Longrightarrow> snd ` set jcp' \<subseteq> codigos"
proof (induction nomes arbitrary: jcp)
  case Nil
  then show ?case by simp
next
  case (Cons nome nomes)
  from Cons.prems(1) obtain posicao jcp1 where
    step: "busca_posicoes players nomes jcp1 = Inr jcp'" and
    jcp1: "jcp1 = (case posicao of
            Some (c # cs) \<Rightarrow> dict_set nome (normalizar_posicao (c # cs)) jcp
          | _ \<Rightarrow> (if py_in ''Luiz'' nome then dict_set nome ''ZAG'' jcp
                  else if nome = ''Adelson'' then dict_set nome ''MEI'' jcp
                  else dict_set nome ''ATA'' jcp))"
    by (auto simp: bindE_Inr_iff)
  have "snd ` set jcp1 \<subseteq> codigos"
    unfolding jcp1 using Cons.prems(2)
    by (simp split: option.splits list.splits
          add: valores_dict_set normalizar_posicao_codigo codigos_membros)
  with Cons.IH step show ?case by blast
qed

lemma conta_posicoes_codigos:
  "conta_posicoes jcp js (pt, pr) = (pt', pr') \<Longrightarrow> snd ` set jcp \<subseteq> codigos
     \<Longrightarrow> snd ` set pt \<subseteq> codigos \<Longrightarrow> snd ` set pr \<subseteq> codigos
     \<Longrightarrow> snd ` set pt' \<subseteq> codigos \<and> snd ` set pr' \<subseteq> codigos"
proof (induction js arbitrary: pt pr)
  case Nil
  then show ?case by simp
next
  case (Cons j js)
  let ?p = "dict_get jcp j ''ATA''"
  have c: "?p \<in> codigos"
    using Cons.prems(2) by (intro dict_get_valores) (simp_all add: codigos_membros)
  from Cons.prems(1)
  have r: "conta_posicoes jcp js (dict_set j ?p pt, dict_set j ?p pr) = (pt', pr')"
    by (simp add: Let_def)
  show ?case
    by (rule Cons.IH [OF r Cons.prems(2)]) (simp_all add: valores_dict_set c Cons.prems)
qed

lemma monta_times_codigos:
  "monta_times jcp i tms pr = (infos, pr') \<Longrightarrow> snd ` set jcp \<subseteq> codigos
     \<Longrightarrow> snd ` set pr \<subseteq> codigos
     \<Longrightarrow> (\<forall>t \<in> set infos. snd ` set (posicoes_time t) \<subseteq> codigos) \<and> snd ` set pr' \<subseteq> codigos"
proof (induction tms arbitrary: i pr infos pr')
  case Nil
  then show ?case by simp
next
  case (Cons t ts)
  obtain pt pr1 where a: "conta_posicoes jcp t ([], pr) = (pt, pr1)"
    by (cases "conta_posicoes jcp t ([], pr)")
  obtain infos2 pr2 where b: "monta_times jcp (Suc i) ts pr1 = (infos2, pr2)"
    by (cases "monta_times jcp (Suc i) ts pr1")
  have c: "snd ` set pt \<subseteq> codigos \<and> snd ` set pr1 \<subseteq> codigos"
    by (rule conta_posicoes_codigos [OF a Cons.prems(2) _ Cons.prems(3)]) simp
  then have c2: "snd ` set pr1 \<subseteq> codigos" ..
  have d: "(\<forall>t \<in> set infos2. snd ` set (posicoes_time t) \<subseteq> codigos) \<and> snd ` set pr2 \<subseteq> codigos"
    by (rule Cons.IH [OF b Cons.prems(2) c2])
  from Cons.prems(1) a b
  have e: "infos = \<lparr>numero = i, jogadores = t, posicoes_time = pt\<rparr> # infos2" "pr' = pr2"
    by simp_all
  from c d show ?case unfolding e by simp
qed

lemma posicoes_time_5_codigos:
  "posicoes_time_5 players jcp js pr = Inr pr' \<Longrightarrow> snd ` set jcp \<subseteq> codigos
     \<Longrightarrow> snd ` set pr \<subseteq> codigos \<Longrightarrow> snd ` set pr' \<subseteq> codigos"
proof (induction js arbitrary: pr)
  case Nil
  then show ?case by simp
next
  case (Cons j js)
  show ?case
  proof (cases "map_of jcp j")
    case (Some p)
    then have "p \<in> codigos" using Cons.prems(2) by (force dest!: map_of_SomeD)
    then have p: "p \<in> codigos" .
    from Cons.prems(1) Some
    have r: "posicoes_time_5 players jcp js (dict_set j p pr) = Inr pr'" by simp
    show ?thesis
      by (rule Cons.IH [OF r Cons.prems(2)]) (simp add: valores_dict_set p Cons.prems)
  next
    case None
    with Cons.prems(1) obtain posicao where
      r: "posicoes_time_5 players jcp js
              (dict_set j (case posicao of Some (c # cs) \<Rightarrow> normalizar_posicao (c # cs) | _ \<Rightarrow> ''ATA'') pr) = Inr pr'"
      by (auto simp: bindE_Inr_iff)
    have "(case posicao of Some (c # cs) \<Rightarrow> normalizar_posicao (c # cs) | _ \<Rightarrow> ''ATA'') \<in> codigos"
      by (simp split: option.splits list.splits add: normalizar_posicao_codigo codigos_membros)
    then show ?thesis
      by (intro Cons.IH [OF r Cons.prems(2)] valores_dict_set Cons.prems)
  qed
qed

lemma tabela_inicial_codigos: "snd ` set jogadores_com_posicao_inicial \<subseteq> codigos"
  by (simp add: jogadores_com_posicao_inicial_def codigos_def)

lemma monta_resultado_codigos:
  assumes "monta_resultado players jcp tms todos = Inr r" and cj: "snd ` set jcp \<subseteq> codigos"
  shows "snd ` set (posicoes r) \<subseteq> codigos
         \<and> (\<forall>t \<in> set (times_res r). snd ` set (posicoes_time t) \<subseteq> codigos)"
proof -
  obtain infos pr where m: "monta_times jcp 1 tms [] = (infos, pr)"
    by (cases "monta_times jcp 1 tms []")
  from assms(1) m obtain pr' where
    p: "posicoes_time_5 players jcp (filter (\<lambda>j. j \<notin> set (concat tms)) todos) pr = Inr pr'" and
    r: "r = \<lparr>times_res = infos, time_5 = filter (\<lambda>j. j \<notin> set (concat tms)) todos, posicoes = pr'\<rparr>"
    by (auto simp: monta_resultado_def bindE_Inr_iff Let_def)
  from monta_times_codigos [OF m cj] have
    i: "\<forall>t \<in> set infos. snd ` set (posicoes_time t) \<subseteq> codigos" and c: "snd ` set pr \<subseteq> codigos"
    by simp_all
  from posicoes_time_5_codigos [OF p cj c] i show ?thesis unfolding r by simp
qed

lemma sortear_jogadores_codigos:
  assumes "sortear_jogadores players s = Inr r"
  shows "snd ` set (posicoes r) \<subseteq> codigos
         \<and> (\<forall>t \<in> set (times_res r). snd ` set (posicoes_time t) \<subseteq> codigos)"
proof -
  from assms obtain jcp where
    j: "busca_posicoes players jogadores_sem_posicao jogadores_com_posicao_inicial = Inr jcp" and
    m: "monta_resultado players jcp (fst (forma_times jcp s)) (snd (forma_times jcp s)) = Inr r"
    by (auto simp: sortear_jogadores_def bindE_Inr_iff Let_def split_def)
  show ?thesis
    by (rule monta_resultado_codigos [OF m busca_posicoes_codigos [OF j tabela_inicial_codigos]])
qed

text \<open>
  C10. In every payload of a draw, every position code of the top-level \<open>posicoes\<close>
  mapping and of each team's \<open>posicoes\<close> mapping is one of ZAG, MEI, ATA: each value
  comes from the position table, whose entries are the hardcoded codes, a result of
  \<open>normalizar_posicao\<close> or one of the defaults, or from \<open>normalizar_posicao\<close> directly.
\<close>

theorem posicoes_do_sorteio_sao_codigos:
  assumes "sortear_times arquivo s = Inr (Sorteio r)"
  shows "snd ` set (posicoes r) \<subseteq> codigos
         \<and> snd ` set (concat (map posicoes_time (times_res r))) \<subseteq> codigos"
proof -
  from assms obtain players where "sortear_jogadores players s = Inr r"
    by (auto simp: sortear_times_def bindE_Inr_iff split: sum.splits)
  from sortear_jogadores_codigos [OF this] show ?thesis by force
qed

text \<open>At a players.json that gives Nilson the label Goleiro, which the extractor returns
  as it is, and Luan the label Volante.\<close>

theorem posicoes_do_sorteio_sao_codigos_witness:
  "(case sorteio_de (sortear_times (Inr texto_nilson_luan) sementes_em_ordem) of
      Some r \<Rightarrow> map_of (posicoes r) ''Nilson'' = Some ''ATA''
                \<and> map_of (posicoes r) ''Luan'' = Some ''MEI''
                \<and> snd ` set (posicoes r) \<subseteq> codigos
                \<and> snd ` set (concat (map posicoes_time (times_res r))) \<subseteq> codigos
    | None \<Rightarrow> False)"
proof -
  have a: "(case sorteio_de (sortear_times (Inr texto_nilson_luan) sementes_em_ordem) of
              Some r \<Rightarrow> map_of (posicoes r) ''Nilson'' = Some ''ATA''
                        \<and> map_of (posicoes r) ''Luan'' = Some ''MEI''
            | None \<Rightarrow> False)"
    by code_simp
  then obtain r where h: "sortear_times (Inr texto_nilson_luan) sementes_em_ordem = Inr (Sorteio r)"
    by (auto simp: sorteio_de_def split: sum.splits saida.splits option.splits)
  from posicoes_do_sorteio_sao_codigos [OF h] a h show ?thesis
    by (simp add: sorteio_de_def)
qed

section \<open>Errors of the loading step\<close>








section \<open>The aggregator: order of each ranking\<close>

lemma sort_reverse_decrescente:
  assumes "Suc i < length (sort_reverse k xs)"
  shows "k (sort_reverse k xs ! Suc i) \<le> k (sort_reverse k xs ! i)"
proof -
  let ?l = "sort_reverse k xs"
  have "sorted (map k (sort_key k (rev xs)))" by (rule sorted_sort_key)
  then have "sorted (rev (map k ?l))" by (simp add: sort_reverse_def rev_map)
  then have "sorted_wrt (\<lambda>x y. y \<le> x) (map k ?l)"
    by (simp add: sorted_wrt_rev)
  from sorted_wrt_nth_less [OF this, of i "Suc i"] assms show ?thesis by simp
qed

lemma chave_ordenacao_desempate:
  "chave_ordenacao (dados_completos (dados_por_jogador st)) (dados_completos (dados_por_goleiro st))
      (nome, quantidade) = (quantidade, fst (desempate st nome), - snd (desempate st nome))"
  by (simp add: chave_ordenacao_def desempate_def split_def Let_def)

lemma categorias_de_ordenadas:
  assumes "(categoria, ranking) \<in> set (categorias_de st)"
  shows "\<exists>itens. ranking = sort_reverse (chave_ordenacao (dados_completos (dados_por_jogador st))
                     (dados_completos (dados_por_goleiro st))) itens"
  using assms by (auto simp: categorias_de_def Let_def)

text \<open>
  C7. In every ranking list of the aggregator, for each pair of adjacent entries the
  earlier total is at least the later one; on equal totals the earlier tie-break wins are
  at least the later ones; on equal totals and wins the earlier tie-break matches played
  are at most the later ones. The tie-break pair of a name is the one \<open>chave_ordenacao\<close>
  looks up.
\<close>

theorem ranking_ordenado:
  assumes "extrair_awards_jogadores players = Inr (categorias, imagens, nomes)"
    and "(categoria, ranking) \<in> set categorias" and "Suc i < length ranking"
  shows "\<exists>st. processa_players players estado_inicial = Inr st \<and>
           (let (nome1, qtd1) = ranking ! i; (nome2, qtd2) = ranking ! Suc i;
                (vitorias1, partidas1) = desempate st nome1;
                (vitorias2, partidas2) = desempate st nome2
            in chave_ordenacao (dados_completos (dados_por_jogador st))
                  (dados_completos (dados_por_goleiro st)) (ranking ! i)
                 = (qtd1, vitorias1, - partidas1)
               \<and> qtd1 \<ge> qtd2
               \<and> (qtd1 = qtd2 \<longrightarrow> vitorias1 \<ge> vitorias2)
               \<and> (qtd1 = qtd2 \<and> vitorias1 = vitorias2 \<longrightarrow> partidas1 \<le> partidas2))"
proof -
  from assms(1) obtain st where st: "processa_players players estado_inicial = Inr st"
    and c: "categorias = categorias_de st"
    by (auto simp: extrair_awards_jogadores_def bindE_Inr_iff)
  let ?k = "chave_ordenacao (dados_completos (dados_por_jogador st))
              (dados_completos (dados_por_goleiro st))"
  from assms(2) c obtain itens where r: "ranking = sort_reverse ?k itens"
    using categorias_de_ordenadas by blast
  from sort_reverse_decrescente [of i ?k itens] assms(3) r
  have le: "?k (ranking ! Suc i) \<le> ?k (ranking ! i)" by simp
  obtain n1 t1 where e1: "ranking ! i = (n1, t1)" by (cases "ranking ! i")
  obtain n2 t2 where e2: "ranking ! Suc i = (n2, t2)" by (cases "ranking ! Suc i")
  obtain v1 p1 where d1: "desempate st n1 = (v1, p1)" by (cases "desempate st n1")
  obtain v2 p2 where d2: "desempate st n2 = (v2, p2)" by (cases "desempate st n2")
  from le have "(t2, v2, - p2) \<le> (t1, v1, - p1)"
    by (simp add: e1 e2 chave_ordenacao_desempate d1 d2)
  then have "t1 \<ge> t2 \<and> (t1 = t2 \<longrightarrow> v1 \<ge> v2) \<and> (t1 = t2 \<and> v1 = v2 \<longrightarrow> p1 \<le> p2)"
    by auto
  with st show ?thesis
    by (simp add: e1 e2 d1 d2 chave_ordenacao_desempate)
qed


theorem ranking_ordenado_witness:
  "extrair_awards_jogadores tres_jogadores =
     Inr ([(''totalGoals'', [(''Cris'', 5), (''Bia'', 3), (''Ana'', 3)]),
           (''totalGamePlayed'', [(''Ana'', 5), (''Bia'', 4), (''Cris'', 4)]),
           (''totalWins'', [(''Bia'', 2), (''Ana'', 1)])],
          [], [''Ana'', ''Bia'', ''Cris''])
   \<and> (\<exists>st. processa_players tres_jogadores estado_inicial = Inr st
          \<and> desempate st ''Bia'' = (2, 4) \<and> desempate st ''Ana'' = (1, 5)
          \<and> (let (nome1, qtd1) = [(''Cris'', 5 :: int), (''Bia'', 3), (''Ana'', 3)] ! 1;
                  (nome2, qtd2) = [(''Cris'', 5 :: int), (''Bia'', 3), (''Ana'', 3)] ! Suc 1;
                  (vitorias1, partidas1) = desempate st nome1;
                  (vitorias2, partidas2) = desempate st nome2
              in qtd1 \<ge> qtd2 \<and> (qtd1 = qtd2 \<longrightarrow> vitorias1 \<ge> vitorias2)
                 \<and> (qtd1 = qtd2 \<and> vitorias1 = vitorias2 \<longrightarrow> partidas1 \<le> partidas2)))"
proof -
  let ?r = "[(''Cris'', 5), (''Bia'', 3), (''Ana'', 3 :: int)]"
  let ?cats = "[(''totalGoals'', ?r),
                (''totalGamePlayed'', [(''Ana'', 5), (''Bia'', 4), (''Cris'', 4)]),
                (''totalWins'', [(''Bia'', 2), (''Ana'', 1)])]"
  have h: "extrair_awards_jogadores tres_jogadores = Inr (?cats, [], [''Ana'', ''Bia'', ''Cris''])"
    by code_simp
  have m: "(''totalGoals'', ?r) \<in> set ?cats"
    by simp
  have l: "Suc 1 < length ?r"
    by simp
  have d: "case processa_players tres_jogadores estado_inicial of
             Inr st \<Rightarrow> desempate st ''Bia'' = (2, 4) \<and> desempate st ''Ana'' = (1, 5)
           | Inl e \<Rightarrow> False"
    by code_simp
  from ranking_ordenado [OF h m l] obtain st where
    st: "processa_players tres_jogadores estado_inicial = Inr st" and
    o: "(let (nome1, qtd1) = ?r ! 1; (nome2, qtd2) = ?r ! Suc 1;
             (vitorias1, partidas1) = desempate st nome1;
             (vitorias2, partidas2) = desempate st nome2
         in qtd1 \<ge> qtd2 \<and> (qtd1 = qtd2 \<longrightarrow> vitorias1 \<ge> vitorias2)
            \<and> (qtd1 = qtd2 \<and> vitorias1 = vitorias2 \<longrightarrow> partidas1 \<le> partidas2))"
    by (auto simp: Let_def split_def)
  from d st have "desempate st ''Bia'' = (2, 4) \<and> desempate st ''Ana'' = (1, 5)" by simp
  with st o have "\<exists>st. processa_players tres_jogadores estado_inicial = Inr st
          \<and> desempate st ''Bia'' = (2, 4) \<and> desempate st ''Ana'' = (1, 5)
          \<and> (let (nome1, qtd1) = ?r ! 1; (nome2, qtd2) = ?r ! Suc 1;
                  (vitorias1, partidas1) = desempate st nome1;
                  (vitorias2, partidas2) = desempate st nome2
              in qtd1 \<ge> qtd2 \<and> (qtd1 = qtd2 \<longrightarrow> vitorias1 \<ge> vitorias2)
                 \<and> (qtd1 = qtd2 \<and> vitorias1 = vitorias2 \<longrightarrow> partidas1 \<le> partidas2))"
    by (intro exI [of _ st] conjI) simp_all
  with h show ?thesis by (intro conjI)
qed

section \<open>The aggregator: statistics come from the player's own team\<close>

lemma map_of_dict_set: "map_of (dict_set k v d) k' = (if k' = k then Some v else map_of d k')"
  by (induction d) auto

lemma dict_get_dict_set:
  "dict_get (dict_set k v d) k' dflt = (if k' = k then v else dict_get d k' dflt)"
  by (simp add: dict_get_def map_of_dict_set)








lemma processa_player_Inr:
  assumes "processa_player player st = Inr st'"
  obtains nome gk image_url td where
    "nome_de player = Inr nome" "is_goleiro_de player = Inr gk"
    "imagem_de player = Inr image_url" "team_data_de player = Inr td"
    "nomes_todos_jogadores st' =
       (if nome \<noteq> [] \<and> nome \<noteq> ''Sem nome'' then insert nome (nomes_todos_jogadores st)
        else nomes_todos_jogadores st)"
    "imagens_jogadores st' =
       (if image_url \<noteq> [] \<and> startswith image_url ''http''
           \<and> nome \<notin> set (map fst (imagens_jogadores st))
        then dict_set nome image_url (imagens_jogadores st) else imagens_jogadores st)"
    "tabela_de (\<not> gk) st' = tabela_de (\<not> gk) st"
    "case td of
       Some (c # r) \<Rightarrow> soma_time nome gk (c # r) (tabela_de gk st) = Inr (tabela_de gk st')
     | _ \<Rightarrow> tabela_de gk st' = tabela_de gk st"
proof -
  from assms obtain nome gk iv image_url td where
    n: "nome_de player = Inr nome" and g: "is_goleiro_de player = Inr gk"
    and i1: "py_get player ''imagePlayer'' (JString []) = Inr iv" and i2: "str_strip iv = Inr image_url"
    and t: "team_data_de player = Inr td"
    and r: "(let nomes = (if nome \<noteq> [] \<and> nome \<noteq> ''Sem nome''
                    then insert nome (nomes_todos_jogadores st) else nomes_todos_jogadores st);
           imagens = (if image_url \<noteq> [] \<and> startswith image_url ''http''
                         \<and> nome \<notin> set (map fst (imagens_jogadores st))
                      then dict_set nome image_url (imagens_jogadores st)
                      else imagens_jogadores st);
           st1 = st\<lparr>imagens_jogadores := imagens, nomes_todos_jogadores := nomes\<rparr>
       in case td of
            Some (campo # resto) \<Rightarrow>
              if gk
              then bindE (soma_time nome True (campo # resto) (dados_por_goleiro st1))
                     (\<lambda>d. Inr (st1\<lparr>dados_por_goleiro := d\<rparr>))
              else bindE (soma_time nome False (campo # resto) (dados_por_jogador st1))
                     (\<lambda>d. Inr (st1\<lparr>dados_por_jogador := d\<rparr>))
          | _ \<Rightarrow> Inr st1) = Inr st'"
    unfolding processa_player_def bindE_Inr_iff by blast
  have im: "imagem_de player = Inr image_url"
    using i1 i2 by (simp add: imagem_de_def bindE_def)
  show thesis
  proof (rule that [OF n g im t])
    show "nomes_todos_jogadores st' =
       (if nome \<noteq> [] \<and> nome \<noteq> ''Sem nome'' then insert nome (nomes_todos_jogadores st)
        else nomes_todos_jogadores st)"
      using r by (auto simp: Let_def bindE_Inr_iff split: option.splits list.splits if_splits)
    show "imagens_jogadores st' =
       (if image_url \<noteq> [] \<and> startswith image_url ''http''
           \<and> nome \<notin> set (map fst (imagens_jogadores st))
        then dict_set nome image_url (imagens_jogadores st) else imagens_jogadores st)"
      using r by (auto simp: Let_def bindE_Inr_iff split: option.splits list.splits if_splits)
    show "tabela_de (\<not> gk) st' = tabela_de (\<not> gk) st"
      using r by (auto simp: Let_def bindE_Inr_iff tabela_de_def split: option.splits list.splits if_splits)
    show "case td of
       Some (c # r) \<Rightarrow> soma_time nome gk (c # r) (tabela_de gk st) = Inr (tabela_de gk st')
     | _ \<Rightarrow> tabela_de gk st' = tabela_de gk st"
      using r by (auto simp: Let_def bindE_Inr_iff tabela_de_def split: option.splits list.splits if_splits)
  qed
qed










section \<open>The aggregator: goalkeepers\<close>

lemma set_sort_reverse: "set (sort_reverse k xs) = set xs"
  by (simp add: sort_reverse_def)

lemma dict_get_vazio: "dict_get [] k dflt = dflt"
  by (simp add: dict_get_def)

lemma itens_anexa:
  "set (dict_get (anexa c item cats) c' []) =
     set (dict_get cats c' []) \<union> (if c' = c then {item} else {})"
  by (auto simp: anexa_def dict_get_dict_set)

lemma itens_agrupa_jogador:
  "set (dict_get (agrupa_jogador n ds cats) c' []) =
     set (dict_get cats c' []) \<union> {(n, q) |q. (c', q) \<in> set ds \<and> q > 0}"
  by (induction ds arbitrary: cats) (auto simp: itens_anexa split: if_splits)

lemma itens_agrupa_jogadores:
  "set (dict_get (agrupa_jogadores d cats) c' []) =
     set (dict_get cats c' []) \<union> {(n, q) |n q ds. (n, ds) \<in> set d \<and> (c', q) \<in> set ds \<and> q > 0}"
proof (induction d arbitrary: cats)
  case Nil
  show ?case by simp
next
  case (Cons a d)
  obtain n ds where a: "a = (n, ds)" by (cases a)
  show ?case
    unfolding a agrupa_jogadores.simps Cons.IH itens_agrupa_jogador
    by (simp only: set_simps Un_assoc) blast
qed

lemma itens_agrupa_goleiro:
  "set (dict_get (agrupa_goleiro n ds cats) c' []) =
     set (dict_get cats c' []) \<union>
     {(n, q) |q c. (c, q) \<in> set ds \<and> q > 0 \<and> c \<notin> set categorias_awards \<and> destino c = c'}"
  by (induction ds arbitrary: cats) (auto simp: itens_anexa destino_def split: if_splits)

lemma itens_agrupa_goleiros:
  "set (dict_get (agrupa_goleiros d cats) c' []) =
     set (dict_get cats c' []) \<union>
     {(n, q) |n q ds c. (n, ds) \<in> set d \<and> (c, q) \<in> set ds \<and> q > 0
                        \<and> c \<notin> set categorias_awards \<and> destino c = c'}"
proof (induction d arbitrary: cats)
  case Nil
  show ?case by simp
next
  case (Cons a d)
  obtain n ds where a: "a = (n, ds)" by (cases a)
  show ?case
    unfolding a agrupa_goleiros.simps Cons.IH itens_agrupa_goleiro
    by (simp only: set_simps Un_assoc) blast
qed

lemma dict_get_map_valores:
  "f [] = [] \<Longrightarrow> dict_get (map (\<lambda>(c, l). (c, f l)) cats) c' [] = f (dict_get cats c' [])"
  by (induction cats) (auto simp: dict_get_def)

lemma itens_categorias_de:
  "set (dict_get (categorias_de st) c' []) =
     {(n, q) |n q ds. (n, ds) \<in> set (dados_por_jogador st) \<and> (c', q) \<in> set ds \<and> q > 0} \<union>
     {(n, q) |n q ds c. (n, ds) \<in> set (dados_por_goleiro st) \<and> (c, q) \<in> set ds \<and> q > 0
                        \<and> c \<notin> set categorias_awards \<and> destino c = c'}"
proof -
  let ?k = "chave_ordenacao (dados_completos (dados_por_jogador st)) (dados_completos (dados_por_goleiro st))"
  have "dict_get (categorias_de st) c' [] =
          sort_reverse ?k (dict_get (agrupa_goleiros (dados_por_goleiro st)
                                      (agrupa_jogadores (dados_por_jogador st) [])) c' [])"
    unfolding categorias_de_def Let_def
    by (rule dict_get_map_valores) (simp add: sort_reverse_def)
  then show ?thesis
    by (simp add: set_sort_reverse itens_agrupa_goleiros itens_agrupa_jogadores dict_get_vazio)
qed

lemma chaves_dict_set: "fst ` set (dict_set k v d) = insert k (fst ` set d)"
proof (induction d)
  case Nil
  show ?case by simp
next
  case (Cons a d)
  obtain k' v' where a: "a = (k', v')" by (cases a)
  show ?case
  proof (cases "k' = k")
    case True
    then show ?thesis unfolding a by simp
  next
    case False
    then show ?thesis unfolding a using Cons.IH by (simp add: insert_commute)
  qed
qed

lemma distinct_dict_set: "distinct (map fst d) \<Longrightarrow> distinct (map fst (dict_set k v d))"
proof (induction d)
  case Nil
  show ?case by simp
next
  case (Cons a d)
  obtain k' v' where a: "a = (k', v')" by (cases a)
  from Cons show ?case
    unfolding a by (auto simp: chaves_dict_set)
qed

lemma dict_get_distinct:
  assumes "dados_ok d"
  shows "distinct (map fst (dict_get d n []))"
proof (cases "map_of d n")
  case None
  then show ?thesis by (simp add: dict_get_def)
next
  case (Some ds)
  then have "(n, ds) \<in> set d" by (rule map_of_SomeD)
  with assms Some show ?thesis by (auto simp: dados_ok_def dict_get_def)
qed

lemma dados_ok_dict_set:
  assumes "dados_ok d" "distinct (map fst ds)"
  shows "dados_ok (dict_set n ds d)"
proof -
  have "distinct (map fst (dict_set n ds d))"
    using assms(1) by (simp add: dados_ok_def distinct_dict_set)
  moreover have "\<forall>(n', ds') \<in> set (dict_set n ds d). distinct (map fst ds')"
    using assms set_dict_set [of n ds d] by (auto simp: dados_ok_def)
  ultimately show ?thesis by (simp add: dados_ok_def)
qed

lemma dados_ok_soma_em: "dados_ok d \<Longrightarrow> dados_ok (soma_em n c q d)"
  unfolding soma_em_def Let_def
  by (intro dados_ok_dict_set distinct_dict_set dict_get_distinct)

lemma dados_ok_acumula: "dados_ok d \<Longrightarrow> dados_ok (acumula n c v d)"
  by (simp add: acumula_def dados_ok_soma_em split: option.splits)

lemma dados_ok_acumula_awards: "dados_ok d \<Longrightarrow> dados_ok (acumula_awards n itens d)"
  by (induction itens arbitrary: d) (auto simp: dados_ok_acumula)

lemma dados_ok_acumula_campos: "dados_ok d \<Longrightarrow> dados_ok (acumula_campos n t campos d)"
  by (induction campos arbitrary: d) (auto simp: dados_ok_acumula)

lemma dados_ok_soma_time: "soma_time n gk t d = Inr d' \<Longrightarrow> dados_ok d \<Longrightarrow> dados_ok d'"
  by (auto simp: soma_time_def Let_def dados_ok_acumula_campos dados_ok_acumula_awards
        split: json.splits)

lemma chaves_soma_em: "fst ` set (soma_em n c q d) = insert n (fst ` set d)"
  by (simp add: soma_em_def Let_def chaves_dict_set)

lemma chaves_acumula: "fst ` set (acumula n c v d) \<subseteq> insert n (fst ` set d)"
  by (auto simp: acumula_def chaves_soma_em split: option.splits)

lemma chaves_acumula_awards: "fst ` set (acumula_awards n itens d) \<subseteq> insert n (fst ` set d)"
proof (induction itens arbitrary: d)
  case Nil
  show ?case by auto
next
  case (Cons a itens)
  obtain c v where a: "a = (c, v)" by (cases a)
  from Cons.IH [of "acumula n c v d"] chaves_acumula [of n c v d]
  show ?case unfolding a by auto
qed

lemma chaves_acumula_campos: "fst ` set (acumula_campos n t campos d) \<subseteq> insert n (fst ` set d)"
proof (induction campos arbitrary: d)
  case Nil
  show ?case by auto
next
  case (Cons c campos)
  from Cons.IH [of "acumula n c (dict_get t c (JInt 0)) d"]
       chaves_acumula [of n c "dict_get t c (JInt 0)" d]
  show ?case by auto
qed

lemma chaves_soma_time:
  assumes "soma_time n gk t d = Inr d'"
  shows "fst ` set d' \<subseteq> insert n (fst ` set d)"
proof -
  from assms obtain a where
    d': "d' = acumula_campos n t (if gk then campos_estatisticas_goleiros else campos_estatisticas_partidas)
         (acumula_campos n t campos_estatisticas_gerais (acumula_awards n a d))"
    by (auto simp: soma_time_def Let_def split: json.splits)
  have "fst ` set d' \<subseteq> insert n (fst ` set (acumula_campos n t campos_estatisticas_gerais (acumula_awards n a d)))"
    unfolding d' by (rule chaves_acumula_campos)
  also have "\<dots> \<subseteq> insert n (insert n (fst ` set (acumula_awards n a d)))"
    using chaves_acumula_campos [of n t campos_estatisticas_gerais "acumula_awards n a d"] by auto
  also have "\<dots> \<subseteq> insert n (fst ` set d)"
    using chaves_acumula_awards [of n a d] by auto
  finally show ?thesis .
qed

lemma total_de_membro:
  assumes "dados_ok d" "q \<noteq> 0"
  shows "(\<exists>ds. (n, ds) \<in> set d \<and> (c, q) \<in> set ds) \<longleftrightarrow> total_de d n c = q"
proof
  assume "\<exists>ds. (n, ds) \<in> set d \<and> (c, q) \<in> set ds"
  then obtain ds where a: "(n, ds) \<in> set d" and b: "(c, q) \<in> set ds" by blast
  from assms(1) a have "map_of d n = Some ds" by (simp add: dados_ok_def)
  moreover from assms(1) a have "distinct (map fst ds)" by (auto simp: dados_ok_def)
  with b have "map_of ds c = Some q" by simp
  ultimately show "total_de d n c = q" by (simp add: total_de_def dict_get_def)
next
  assume t: "total_de d n c = q"
  show "\<exists>ds. (n, ds) \<in> set d \<and> (c, q) \<in> set ds"
  proof (cases "map_of d n")
    case None
    with t assms(2) show ?thesis by (simp add: total_de_def dict_get_def)
  next
    case (Some ds)
    with t assms(2) have "map_of ds c = Some q"
      by (cases "map_of ds c") (simp_all add: total_de_def dict_get_def)
    with Some show ?thesis by (blast dest: map_of_SomeD)
  qed
qed

lemma invariante_player:
  assumes p: "processa_player p st = Inr st'" and ok: "\<And>g. dados_ok (tabela_de g st)"
  shows "dados_ok (tabela_de g st')
         \<and> fst ` set (tabela_de g st')
             \<subseteq> fst ` set (tabela_de g st) \<union> {n. nome_de p = Inr n \<and> is_goleiro_de p = Inr g}"
proof -
  from p obtain nome gk image_url td where
    n: "nome_de p = Inr nome" and gk: "is_goleiro_de p = Inr gk"
    and o: "tabela_de (\<not> gk) st' = tabela_de (\<not> gk) st"
    and c: "case td of
       Some (c # r) \<Rightarrow> soma_time nome gk (c # r) (tabela_de gk st) = Inr (tabela_de gk st')
     | _ \<Rightarrow> tabela_de gk st' = tabela_de gk st"
    by (rule processa_player_Inr)
  show ?thesis
  proof (cases "g = gk")
    case False
    then have "g = (\<not> gk)" by simp
    with o ok [of g] show ?thesis by auto
  next
    case True
    show ?thesis
    proof (cases "\<exists>c r. td = Some (c # r)")
      case False
      with c have "tabela_de gk st' = tabela_de gk st"
        by (auto split: option.splits list.splits)
      with True ok [of g] show ?thesis by auto
    next
      case True2: True
      then obtain c' r where "td = Some (c' # r)" by blast
      with c have s: "soma_time nome gk (c' # r) (tabela_de gk st) = Inr (tabela_de gk st')" by simp
      from dados_ok_soma_time [OF s ok] chaves_soma_time [OF s] n gk True
      show ?thesis by auto
    qed
  qed
qed

lemma invariante_players:
  assumes "processa_players ps st = Inr st'" and "\<And>g. dados_ok (tabela_de g st)"
  shows "dados_ok (tabela_de g st')
         \<and> fst ` set (tabela_de g st')
             \<subseteq> fst ` set (tabela_de g st)
                \<union> {n. \<exists>p \<in> set ps. nome_de p = Inr n \<and> is_goleiro_de p = Inr g}"
  using assms
proof (induction ps arbitrary: st g)
  case Nil
  then show ?case by simp
next
  case (Cons p ps)
  from Cons.prems(1) obtain st1 where
    a: "processa_player p st = Inr st1" and b: "processa_players ps st1 = Inr st'"
    by (auto simp: bindE_Inr_iff)
  have ok1: "\<And>g. dados_ok (tabela_de g st1)"
    using invariante_player [OF a Cons.prems(2)] by blast
  have k1: "fst ` set (tabela_de g st1)
             \<subseteq> fst ` set (tabela_de g st) \<union> {n. nome_de p = Inr n \<and> is_goleiro_de p = Inr g}"
    using invariante_player [OF a Cons.prems(2)] by blast
  from Cons.IH [OF b ok1, of g] have
    ok': "dados_ok (tabela_de g st')" and
    k': "fst ` set (tabela_de g st')
             \<subseteq> fst ` set (tabela_de g st1)
                \<union> {n. \<exists>p \<in> set ps. nome_de p = Inr n \<and> is_goleiro_de p = Inr g}"
    by blast+
  have e: "{n. \<exists>q \<in> set (p # ps). nome_de q = Inr n \<and> is_goleiro_de q = Inr g}
           = {n. nome_de p = Inr n \<and> is_goleiro_de p = Inr g}
             \<union> {n. \<exists>q \<in> set ps. nome_de q = Inr n \<and> is_goleiro_de q = Inr g}"
    by auto
  from k1 k' have "fst ` set (tabela_de g st')
             \<subseteq> fst ` set (tabela_de g st)
                \<union> {n. \<exists>q \<in> set (p # ps). nome_de q = Inr n \<and> is_goleiro_de q = Inr g}"
    unfolding e by blast
  with ok' show ?case by blast
qed

lemma dados_ok_inicial: "dados_ok (tabela_de g estado_inicial)"
  by (simp add: tabela_de_def estado_inicial_def dados_ok_def)

lemma destino_fora_dos_awards: "c \<notin> set categorias_awards \<Longrightarrow> destino c \<notin> set categorias_awards"
  by (auto simp: destino_def categorias_awards_def campos_estatisticas_goleiros_def)

lemma destino_fora_dos_campos: "destino c \<notin> set campos_estatisticas_goleiros"
  by (auto simp: destino_def campos_estatisticas_goleiros_def)

lemma destino_gerais:
  "campo \<in> set campos_estatisticas_gerais \<Longrightarrow> destino c = campo \<longleftrightarrow> c = campo"
  by (auto simp: destino_def campos_estatisticas_gerais_def campos_estatisticas_goleiros_def)

lemma campos_fora_dos_awards:
  "campo \<in> set campos_estatisticas_goleiros \<Longrightarrow> campo \<notin> set categorias_awards"
  "campo \<in> set campos_estatisticas_gerais \<Longrightarrow> campo \<notin> set categorias_awards"
  by (auto simp: categorias_awards_def campos_estatisticas_gerais_def campos_estatisticas_goleiros_def)

lemma estado_apos_players:
  assumes "processa_players players estado_inicial = Inr st"
  shows "dados_ok (dados_por_jogador st)" "dados_ok (dados_por_goleiro st)"
    "fst ` set (dados_por_jogador st)
       \<subseteq> {n. \<exists>p \<in> set players. nome_de p = Inr n \<and> is_goleiro_de p = Inr False}"
proof -
  from invariante_players [OF assms dados_ok_inicial, of False]
  show "dados_ok (dados_por_jogador st)"
    and "fst ` set (dados_por_jogador st)
       \<subseteq> {n. \<exists>p \<in> set players. nome_de p = Inr n \<and> is_goleiro_de p = Inr False}"
    by (simp_all add: tabela_de_def estado_inicial_def)
  from invariante_players [OF assms dados_ok_inicial, of True]
  show "dados_ok (dados_por_goleiro st)"
    by (simp add: tabela_de_def)
qed

lemma item_de_award:
  assumes st: "processa_players players estado_inicial = Inr st"
    and c: "categoria \<in> set categorias_awards"
    and m: "(nome, q) \<in> set (dict_get (categorias_de st) categoria [])"
  shows "q > 0 \<and> q = total_de (dados_por_jogador st) nome categoria
         \<and> (\<exists>p \<in> set players. nome_de p = Inr nome \<and> is_goleiro_de p = Inr False)"
proof -
  from m have "(\<exists>ds. (nome, ds) \<in> set (dados_por_jogador st) \<and> (categoria, q) \<in> set ds \<and> q > 0)
     \<or> (\<exists>ds c. (nome, ds) \<in> set (dados_por_goleiro st) \<and> (c, q) \<in> set ds \<and> q > 0
                        \<and> c \<notin> set categorias_awards \<and> destino c = categoria)"
    unfolding itens_categorias_de by blast
  moreover have "\<not> (\<exists>ds c. (nome, ds) \<in> set (dados_por_goleiro st) \<and> (c, q) \<in> set ds \<and> q > 0
                        \<and> c \<notin> set categorias_awards \<and> destino c = categoria)"
    using c destino_fora_dos_awards by auto
  ultimately obtain ds where
    a: "(nome, ds) \<in> set (dados_por_jogador st)" and b: "(categoria, q) \<in> set ds" and q: "q > 0"
    by blast
  from a have "nome \<in> fst ` set (dados_por_jogador st)" by force
  with estado_apos_players(3) [OF st]
  have p: "\<exists>p \<in> set players. nome_de p = Inr nome \<and> is_goleiro_de p = Inr False" by blast
  from q have "q \<noteq> 0" by simp
  from total_de_membro [OF estado_apos_players(1) [OF st] this, of nome categoria] a b
  have "total_de (dados_por_jogador st) nome categoria = q" by blast
  with q p show ?thesis by simp
qed

lemma item_de_partidas:
  assumes st: "processa_players players estado_inicial = Inr st"
    and c: "campo \<in> set campos_estatisticas_goleiros"
  shows "(q > 0 \<and> total_de (dados_por_goleiro st) nome campo = q
            \<longrightarrow> (nome, q) \<in> set (dict_get (categorias_de st) (''goleiro_'' @ campo) []))
       \<and> ((nome, q) \<in> set (dict_get (categorias_de st) campo [])
            \<longrightarrow> q > 0 \<and> q = total_de (dados_por_jogador st) nome campo)"
proof (rule conjI; rule impI)
  assume a: "q > 0 \<and> total_de (dados_por_goleiro st) nome campo = q"
  then have "q \<noteq> 0" by simp
  from total_de_membro [OF estado_apos_players(2) [OF st] this, of nome campo] a
  obtain ds where "(nome, ds) \<in> set (dados_por_goleiro st)" "(campo, q) \<in> set ds" by blast
  moreover from c have "destino campo = ''goleiro_'' @ campo" by (simp add: destino_def)
  moreover note campos_fora_dos_awards(1) [OF c] a
  ultimately show "(nome, q) \<in> set (dict_get (categorias_de st) (''goleiro_'' @ campo) [])"
    unfolding itens_categorias_de by blast
next
  assume m: "(nome, q) \<in> set (dict_get (categorias_de st) campo [])"
  then have "(\<exists>ds. (nome, ds) \<in> set (dados_por_jogador st) \<and> (campo, q) \<in> set ds \<and> q > 0)
     \<or> (\<exists>ds c'. (nome, ds) \<in> set (dados_por_goleiro st) \<and> (c', q) \<in> set ds \<and> q > 0
                        \<and> c' \<notin> set categorias_awards \<and> destino c' = campo)"
    unfolding itens_categorias_de by blast
  moreover have "\<not> (\<exists>ds c'. (nome, ds) \<in> set (dados_por_goleiro st) \<and> (c', q) \<in> set ds \<and> q > 0
                        \<and> c' \<notin> set categorias_awards \<and> destino c' = campo)"
    using c destino_fora_dos_campos by auto
  ultimately obtain ds where
    a: "(nome, ds) \<in> set (dados_por_jogador st)" and b: "(campo, q) \<in> set ds" and q: "q > 0"
    by blast
  from q have "q \<noteq> 0" by simp
  from total_de_membro [OF estado_apos_players(1) [OF st] this, of nome campo] a b
  have "total_de (dados_por_jogador st) nome campo = q" by blast
  with q show "q > 0 \<and> q = total_de (dados_por_jogador st) nome campo" by simp
qed

lemma item_de_gerais:
  assumes st: "processa_players players estado_inicial = Inr st"
    and c: "campo \<in> set campos_estatisticas_gerais" and q: "q > 0"
  shows "(nome, q) \<in> set (dict_get (categorias_de st) campo [])
         \<longleftrightarrow> total_de (dados_por_jogador st) nome campo = q
              \<or> total_de (dados_por_goleiro st) nome campo = q"
proof -
  from q have q0: "q \<noteq> 0" by simp
  have j: "(\<exists>ds. (nome, ds) \<in> set (dados_por_jogador st) \<and> (campo, q) \<in> set ds)
             \<longleftrightarrow> total_de (dados_por_jogador st) nome campo = q"
    by (rule total_de_membro [OF estado_apos_players(1) [OF st] q0])
  have g: "(\<exists>ds. (nome, ds) \<in> set (dados_por_goleiro st) \<and> (campo, q) \<in> set ds)
             \<longleftrightarrow> total_de (dados_por_goleiro st) nome campo = q"
    by (rule total_de_membro [OF estado_apos_players(2) [OF st] q0])
  have "(nome, q) \<in> set (dict_get (categorias_de st) campo [])
        \<longleftrightarrow> (\<exists>ds. (nome, ds) \<in> set (dados_por_jogador st) \<and> (campo, q) \<in> set ds)
            \<or> (\<exists>ds. (nome, ds) \<in> set (dados_por_goleiro st) \<and> (campo, q) \<in> set ds)"
  proof -
    have "(\<exists>ds c'. (nome, ds) \<in> set (dados_por_goleiro st) \<and> (c', q) \<in> set ds \<and> q > 0
                        \<and> c' \<notin> set categorias_awards \<and> destino c' = campo)
          \<longleftrightarrow> (\<exists>ds. (nome, ds) \<in> set (dados_por_goleiro st) \<and> (campo, q) \<in> set ds)"
      using q destino_gerais [OF c] campos_fora_dos_awards(2) [OF c] by auto
    moreover have "(nome, q) \<in> set (dict_get (categorias_de st) campo [])
       \<longleftrightarrow> (\<exists>ds. (nome, ds) \<in> set (dados_por_jogador st) \<and> (campo, q) \<in> set ds \<and> q > 0)
         \<or> (\<exists>ds c'. (nome, ds) \<in> set (dados_por_goleiro st) \<and> (c', q) \<in> set ds \<and> q > 0
                        \<and> c' \<notin> set categorias_awards \<and> destino c' = campo)"
      unfolding itens_categorias_de by blast
    ultimately show ?thesis using q by simp
  qed
  then show ?thesis unfolding j g .
qed

text \<open>
  C6. The claim: no name of a record classified as goalkeeper appears in the award
  categories. As stated it fails when a name has a goalkeeper record and a record of another
  position: the awards of the second record put the name into the award category.
\<close>

theorem goleiro_homonimo_em_award:
  "extrair_awards_jogadores [registro_ze_goleiro, registro_ze_atacante]
     = Inr ([(''craque'', [(''Ze'', 1)])], [], [''Ze''])
   \<and> nome_de registro_ze_goleiro = Inr ''Ze''
   \<and> is_goleiro_de registro_ze_goleiro = Inr True"
  by code_simp

text \<open>
  C6 as amended. When the aggregator returns: every entry of an award category is the
  positive total that the non-goalkeeper records of that name collected, and some record of
  that name is not a goalkeeper (so the awards of goalkeeper records are never counted, and
  a name whose records are all goalkeepers is in no award category); a goalkeeper's match
  statistic is filed under the key with the prefix \<open>goleiro_\<close>, and the unprefixed
  match-statistic categories hold non-goalkeeper totals only; the categories of
  \<open>totalGoals\<close> and \<open>totalAssistence\<close> hold the positive totals of both populations.
\<close>

theorem awards_so_de_nao_goleiros:
  assumes "extrair_awards_jogadores players = Inr (categorias, imagens, nomes)"
  shows "\<exists>st. processa_players players estado_inicial = Inr st
    \<and> (\<forall>categoria nome q.
          categoria \<in> set categorias_awards \<and> (nome, q) \<in> set (dict_get categorias categoria [])
          \<longrightarrow> q > 0 \<and> q = total_de (dados_por_jogador st) nome categoria
              \<and> (\<exists>p \<in> set players. nome_de p = Inr nome \<and> is_goleiro_de p = Inr False))
    \<and> (\<forall>campo nome q.
          campo \<in> set campos_estatisticas_goleiros
          \<longrightarrow> (q > 0 \<and> total_de (dados_por_goleiro st) nome campo = q
                 \<longrightarrow> (nome, q) \<in> set (dict_get categorias (''goleiro_'' @ campo) []))
              \<and> ((nome, q) \<in> set (dict_get categorias campo [])
                 \<longrightarrow> q > 0 \<and> q = total_de (dados_por_jogador st) nome campo))
    \<and> (\<forall>campo nome q.
          campo \<in> set campos_estatisticas_gerais \<and> q > 0
          \<longrightarrow> ((nome, q) \<in> set (dict_get categorias campo [])
                 \<longleftrightarrow> total_de (dados_por_jogador st) nome campo = q
                      \<or> total_de (dados_por_goleiro st) nome campo = q))"
proof -
  from assms obtain st where st: "processa_players players estado_inicial = Inr st"
    and c: "categorias = categorias_de st"
    by (auto simp: extrair_awards_jogadores_def bindE_Inr_iff)
  have 1: "\<forall>categoria nome q.
          categoria \<in> set categorias_awards \<and> (nome, q) \<in> set (dict_get categorias categoria [])
          \<longrightarrow> q > 0 \<and> q = total_de (dados_por_jogador st) nome categoria
              \<and> (\<exists>p \<in> set players. nome_de p = Inr nome \<and> is_goleiro_de p = Inr False)"
    unfolding c using item_de_award [OF st] by blast
  have 2: "\<forall>campo nome q.
          campo \<in> set campos_estatisticas_goleiros
          \<longrightarrow> (q > 0 \<and> total_de (dados_por_goleiro st) nome campo = q
                 \<longrightarrow> (nome, q) \<in> set (dict_get categorias (''goleiro_'' @ campo) []))
              \<and> ((nome, q) \<in> set (dict_get categorias campo [])
                 \<longrightarrow> q > 0 \<and> q = total_de (dados_por_jogador st) nome campo)"
    unfolding c using item_de_partidas [OF st] by blast
  have 3: "\<forall>campo nome q.
          campo \<in> set campos_estatisticas_gerais \<and> q > 0
          \<longrightarrow> ((nome, q) \<in> set (dict_get categorias campo [])
                 \<longleftrightarrow> total_de (dados_por_jogador st) nome campo = q
                      \<or> total_de (dados_por_goleiro st) nome campo = q)"
    unfolding c using item_de_gerais [OF st] by blast
  from st 1 2 3 show ?thesis by blast
qed


theorem awards_so_de_nao_goleiros_witness:
  "extrair_awards_jogadores [registro_goleiro_gil, registro_ze_atacante]
     = Inr (categorias_gil_ze, [], [''Gil'', ''Ze''])
   \<and> processa_players [registro_goleiro_gil, registro_ze_atacante] estado_inicial = Inr estado_gil_ze
   \<and> ''craque'' \<in> set categorias_awards
   \<and> (''Ze'', 1) \<in> set (dict_get categorias_gil_ze ''craque'' [])
   \<and> 1 = total_de (dados_por_jogador estado_gil_ze) ''Ze'' ''craque''
   \<and> total_de (dados_por_goleiro estado_gil_ze) ''Gil'' ''craque'' = 4
   \<and> (''Gil'', 2) \<in> set (dict_get categorias_gil_ze ''goleiro_totalWins'' [])
   \<and> (''Gil'', 1) \<in> set (dict_get categorias_gil_ze ''totalGoals'' [])"
proof -
  let ?ps = "[registro_goleiro_gil, registro_ze_atacante]"
  have h: "extrair_awards_jogadores ?ps = Inr (categorias_gil_ze, [], [''Gil'', ''Ze''])"
    by code_simp
  have s: "processa_players ?ps estado_inicial = Inr estado_gil_ze"
    by code_simp
  have a: "''craque'' \<in> set categorias_awards" by (simp add: categorias_awards_def)
  have m: "(''Ze'', 1) \<in> set (dict_get categorias_gil_ze ''craque'' [])"
    by (simp add: categorias_gil_ze_def dict_get_def)
  have w: "''totalWins'' \<in> set campos_estatisticas_goleiros"
    by (simp add: campos_estatisticas_goleiros_def)
  have tw: "(2::int) > 0 \<and> total_de (dados_por_goleiro estado_gil_ze) ''Gil'' ''totalWins'' = 2"
    by code_simp
  have g: "''totalGoals'' \<in> set campos_estatisticas_gerais \<and> (1::int) > 0"
    by (simp add: campos_estatisticas_gerais_def)
  have tg: "total_de (dados_por_goleiro estado_gil_ze) ''Gil'' ''totalGoals'' = 1"
    by code_simp
  have tc: "total_de (dados_por_goleiro estado_gil_ze) ''Gil'' ''craque'' = 4"
    by code_simp
  from awards_so_de_nao_goleiros [OF h] obtain st where
    st: "processa_players ?ps estado_inicial = Inr st"
   and 1: "\<forall>categoria nome q.
          categoria \<in> set categorias_awards \<and> (nome, q) \<in> set (dict_get categorias_gil_ze categoria [])
          \<longrightarrow> q > 0 \<and> q = total_de (dados_por_jogador st) nome categoria
              \<and> (\<exists>p \<in> set ?ps. nome_de p = Inr nome \<and> is_goleiro_de p = Inr False)"
   and 2: "\<forall>campo nome q.
          campo \<in> set campos_estatisticas_goleiros
          \<longrightarrow> (q > 0 \<and> total_de (dados_por_goleiro st) nome campo = q
                 \<longrightarrow> (nome, q) \<in> set (dict_get categorias_gil_ze (''goleiro_'' @ campo) []))
              \<and> ((nome, q) \<in> set (dict_get categorias_gil_ze campo [])
                 \<longrightarrow> q > 0 \<and> q = total_de (dados_por_jogador st) nome campo)"
   and 3: "\<forall>campo nome q.
          campo \<in> set campos_estatisticas_gerais \<and> q > 0
          \<longrightarrow> ((nome, q) \<in> set (dict_get categorias_gil_ze campo [])
                 \<longleftrightarrow> total_de (dados_por_jogador st) nome campo = q
                      \<or> total_de (dados_por_goleiro st) nome campo = q)"
    by (elim exE conjE)
  from st s have e: "st = estado_gil_ze" by simp
  from 1 [rule_format, of "''craque''" "''Ze''" 1] a m
  have c1: "1 = total_de (dados_por_jogador estado_gil_ze) ''Ze'' ''craque''"
    unfolding e by blast
  from 2 [rule_format, of "''totalWins''" 2 "''Gil''", THEN conjunct1] w tw
  have c2: "(''Gil'', 2) \<in> set (dict_get categorias_gil_ze (''goleiro_'' @ ''totalWins'') [])"
    unfolding e by blast
  from 3 [rule_format, of "''totalGoals''" 1 "''Gil''"] g tg
  have c3: "(''Gil'', 1) \<in> set (dict_get categorias_gil_ze ''totalGoals'' [])"
    unfolding e by blast
  from c2 have c2': "(''Gil'', 2) \<in> set (dict_get categorias_gil_ze ''goleiro_totalWins'' [])"
    by simp
  from h s a m c1 tc c2' c3 show ?thesis by (intro conjI)
qed

end
